theory Spec2Isabelle
  imports Complex_Main "HOL-Library.List_Lexorder" "HOL-Library.Char_ord" "HOL-Library.Multiset"
begin

section \<open>Errors\<close>

text \<open>
  Every exception that the routers and utilities can raise is a value.  An
  \<open>HTTPException\<close> carries its status code and detail; \<open>ValidationError\<close> is the 422 that
  pydantic produces for a request body that fails a field constraint or the model
  validator; the remaining constructors are Python exceptions that no handler catches
  (the framework answers them with a 500).
\<close>

datatype py_error =
    HTTPException nat string
  | ValidationError string
  | ZeroDivisionError
  | IntegrityError

section \<open>GeoMath: \<open>app/utils/distance.py\<close>\<close>

text \<open>
  Python floats are idealised as the real numbers they denote and the arithmetic on
  them as exact.  Python's \<open>/\<close> raises \<open>ZeroDivisionError\<close> on a zero divisor, which HOL's
  total division would hide, so the check is written out.

  The one library value whose rounding in double precision decides what the function
  returns is \<open>math.cos(math.radians(latitude))\<close> at the poles, so this composition is
  the parameter \<open>cos_radians\<close> of \<open>calculate_bounding_box\<close>.
\<close>

record bounding_box =
  min_lat :: real
  max_lat :: real
  min_lon :: real
  max_lon :: real

definition radians :: "real \<Rightarrow> real" where
  "radians d = d * pi / 180"

definition calculate_bounding_box ::
  "(real \<Rightarrow> real) \<Rightarrow> real \<Rightarrow> real \<Rightarrow> real \<Rightarrow> py_error + bounding_box" where
  "calculate_bounding_box cos_radians latitude longitude radius_miles =
     (let latitude_delta = radius_miles / 69;
          divisor = 69 * cos_radians latitude
      in if divisor = 0 then Inl ZeroDivisionError
         else
           (let longitude_delta = radius_miles / divisor
            in Inr \<lparr> min_lat = latitude - latitude_delta,
                     max_lat = latitude + latitude_delta,
                     min_lon = longitude - longitude_delta,
                     max_lon = longitude + longitude_delta \<rparr>))"

text \<open>
  \<open>math.cos(math.radians(d))\<close> as CPython computes it.  \<open>math.radians(90.0)\<close> is the
  double nearest to \<open>pi / 2\<close>, not \<open>pi / 2\<close>, and its cosine is the double
  \<open>0x1.1a62633145c07p-54\<close>, that is \<open>4967757600021511 / 2 ^ 106\<close>, printed
  \<open>6.123233995736766e-17\<close>: it is not zero.  The same value is returned at \<open>-90.0\<close>.
  At every other latitude the double differs from the real cosine by a rounding error
  only, and the real cosine stands for it.
\<close>

definition cos_at_pole :: real where
  "cos_at_pole = 4967757600021511 / 2 ^ 106"

definition math_cos_radians :: "real \<Rightarrow> real" where
  "math_cos_radians d = (if d = 90 \<or> d = - 90 then cos_at_pole else cos (radians d))"

subsection \<open>Python string helpers used by \<open>is_store_open_now\<close>\<close>

text \<open>
  \<open>str.split(sep)\<close> for a one-character separator: the pieces between the separators,
  always at least one piece.
\<close>

fun split_on :: "char \<Rightarrow> string \<Rightarrow> string list" where
  "split_on sep [] = [[]]"
| "split_on sep (c # cs) =
     (if c = sep then [] # split_on sep cs
      else (case split_on sep cs of
              [] \<Rightarrow> [[c]]
            | p # ps \<Rightarrow> (c # p) # ps))"

text \<open>
  \<open>int(s)\<close> on a string, base 10.  Characters are code points below 256.  CPython
  skips leading and trailing whitespace, which for \<open>int\<close> is the code points 9-13 and 32
  (the C \<open>isspace\<close>) and the two non-ASCII spaces 133 and 160 (which are first
  replaced by a blank); the separators 28-31 are \<^emph>\<open>not\<close> whitespace here, although
  \<open>str.strip\<close> removes them.  One sign is allowed, and the rest is decimal digits, where
  single underscores may stand between digits.  More than 4300 digits are refused
  (the default \<open>sys.int_max_str_digits\<close>).  Every failure is a \<open>ValueError\<close>, here
  \<open>None\<close>.
\<close>

definition int_isspace :: "char \<Rightarrow> bool" where
  "int_isspace c =
     (let n = (of_char c :: nat)
      in (9 \<le> n \<and> n \<le> 13) \<or> n = 32 \<or> n = 133 \<or> n = 160)"

definition int_strip :: "string \<Rightarrow> string" where
  "int_strip s = rev (dropWhile int_isspace (rev (dropWhile int_isspace s)))"

definition is_digit :: "char \<Rightarrow> bool" where
  "is_digit c = (48 \<le> (of_char c :: nat) \<and> (of_char c :: nat) \<le> 57)"

definition digit_value :: "char \<Rightarrow> nat" where
  "digit_value c = (of_char c :: nat) - 48"

fun parse_digits :: "nat \<Rightarrow> bool \<Rightarrow> string \<Rightarrow> nat option" where
  "parse_digits acc after_digit [] = (if after_digit then Some acc else None)"
| "parse_digits acc after_digit (c # cs) =
     (if is_digit c then parse_digits (acc * 10 + digit_value c) True cs
      else if c = CHR ''_'' \<and> after_digit then parse_digits acc False cs
      else None)"

definition int_max_str_digits :: nat where
  "int_max_str_digits = 4300"

definition parse_unsigned :: "string \<Rightarrow> nat option" where
  "parse_unsigned s =
     (if int_max_str_digits < length (filter is_digit s) then None
      else parse_digits 0 False s)"

definition py_int :: "string \<Rightarrow> int option" where
  "py_int s =
     (case int_strip s of
        [] \<Rightarrow> None
      | c # cs \<Rightarrow>
          if c = CHR ''-'' then map_option (\<lambda>n. - int n) (parse_unsigned cs)
          else if c = CHR ''+'' then map_option int (parse_unsigned cs)
          else map_option int (parse_unsigned (c # cs)))"

subsection \<open>Weekly hours\<close>

datatype weekday = Mon | Tue | Wed | Thu | Fri | Sat | Sun

text \<open>\<open>day_names[now.weekday()]\<close>: the index is always 0..6, one name per day.\<close>

fun day_names :: "weekday \<Rightarrow> string" where
  "day_names Mon = ''mon''"
| "day_names Tue = ''tue''"
| "day_names Wed = ''wed''"
| "day_names Thu = ''thu''"
| "day_names Fri = ''fri''"
| "day_names Sat = ''sat''"
| "day_names Sun = ''sun''"

record time_of_day =
  hour :: nat
  minute :: nat
  second :: nat
  microsecond :: nat

text \<open>What \<open>datetime.now()\<close> gives the function: the day of the week and the time.\<close>

record local_datetime =
  weekday_of :: weekday
  time_of :: time_of_day

text \<open>Python compares \<open>datetime.time\<close> values field by field, hour first.\<close>

definition time_le :: "time_of_day \<Rightarrow> time_of_day \<Rightarrow> bool" where
  "time_le a b =
     (hour a < hour b \<or>
      (hour a = hour b \<and>
        (minute a < minute b \<or>
         (minute a = minute b \<and>
           (second a < second b \<or>
            (second a = second b \<and> microsecond a \<le> microsecond b))))))"

text \<open>
  \<open>datetime.now().replace(hour=h, minute=m, second=0, microsecond=0).time()\<close>: a
  \<open>ValueError\<close> when the hour or the minute is out of range.
\<close>

definition replace_time :: "int \<Rightarrow> int \<Rightarrow> time_of_day option" where
  "replace_time h m =
     (if 0 \<le> h \<and> h \<le> 23 \<and> 0 \<le> m \<and> m \<le> 59
      then Some \<lparr> hour = nat h, minute = nat m, second = 0, microsecond = 0 \<rparr>
      else None)"

text \<open>\<open>a, b = map(int, s.split(':'))\<close>: exactly two pieces, each an integer.\<close>

definition parse_hour_min :: "string \<Rightarrow> (int \<times> int) option" where
  "parse_hour_min s =
     (case split_on CHR '':'' s of
        [a, b] \<Rightarrow>
          (case py_int a of
             None \<Rightarrow> None
           | Some h \<Rightarrow> (case py_int b of None \<Rightarrow> None | Some m \<Rightarrow> Some (h, m)))
      | _ \<Rightarrow> None)"

text \<open>
  The body of the \<open>try\<close> block up to the comparison; \<open>None\<close> is any exception in it,
  which the bare \<open>except\<close> turns into \<open>False\<close>.
\<close>

definition parse_open_close :: "string \<Rightarrow> (time_of_day \<times> time_of_day) option" where
  "parse_open_close today_hours =
     (case split_on CHR ''-'' today_hours of
        [open_time_str, close_time_str] \<Rightarrow>
          (case parse_hour_min open_time_str of
             None \<Rightarrow> None
           | Some (open_hour, open_min) \<Rightarrow>
               (case parse_hour_min close_time_str of
                  None \<Rightarrow> None
                | Some (close_hour, close_min) \<Rightarrow>
                    (case replace_time open_hour open_min of
                       None \<Rightarrow> None
                     | Some open_time \<Rightarrow>
                         (case replace_time close_hour close_min of
                            None \<Rightarrow> None
                          | Some close_time \<Rightarrow> Some (open_time, close_time)))))
      | _ \<Rightarrow> None)"

text \<open>
  The hours dictionary maps a key to a string or to Python's \<open>None\<close> (a NULL column);
  \<open>hours.get(key, 'closed')\<close> gives \<open>'closed'\<close> for a missing key.  On \<open>None\<close> the
  \<open>split\<close> raises inside the \<open>try\<close>, so the answer is \<open>False\<close>.
\<close>

type_synonym hours_dict = "string \<rightharpoonup> string option"

definition today_entry :: "hours_dict \<Rightarrow> local_datetime \<Rightarrow> string option" where
  "today_entry hours now =
     (case hours (''hours_'' @ day_names (weekday_of now)) of
        None \<Rightarrow> Some ''closed''
      | Some v \<Rightarrow> v)"

definition is_store_open_now :: "hours_dict \<Rightarrow> local_datetime \<Rightarrow> bool" where
  "is_store_open_now hours now =
     (let current_time = time_of now;
          today_hours = today_entry hours now
      in if today_hours = Some ''closed'' then False
         else
           (case today_hours of
              None \<Rightarrow> False
            | Some s \<Rightarrow>
                (case parse_open_close s of
                   None \<Rightarrow> False
                 | Some (open_time, close_time) \<Rightarrow>
                     time_le open_time current_time \<and> time_le current_time close_time)))"

text \<open>The canonical rendering \<open>HH:MM\<close> of an hour and a minute, two digits each.\<close>

definition digit_char :: "nat \<Rightarrow> char" where
  "digit_char d = ''0123456789'' ! d"

definition hhmm :: "nat \<Rightarrow> nat \<Rightarrow> string" where
  "hhmm h m =
     [digit_char (h div 10), digit_char (h mod 10), CHR '':'',
      digit_char (m div 10), digit_char (m mod 10)]"

definition canonical_hours :: "nat \<Rightarrow> nat \<Rightarrow> nat \<Rightarrow> nat \<Rightarrow> string" where
  "canonical_hours oh om ch cm = hhmm oh om @ ''-'' @ hhmm ch cm"

definition at_time :: "nat \<Rightarrow> nat \<Rightarrow> time_of_day" where
  "at_time h m = \<lparr> hour = h, minute = m, second = 0, microsecond = 0 \<rparr>"




section \<open>Authentication: \<open>app/routers/auth.py\<close>, \<open>app/dependencies.py\<close>\<close>

text \<open>
  Timestamps are microseconds since the epoch, the resolution of \<open>datetime\<close>; each
  request reads the clock once and gets it as the argument \<open>now\<close>.
\<close>

type_synonym timestamp = int

definition timedelta_days :: "int \<Rightarrow> timestamp" where
  "timedelta_days d = d * 86400000000"

definition timedelta_seconds :: "int \<Rightarrow> timestamp" where
  "timedelta_seconds s = s * 1000000"

datatype user_status = user_active | user_inactive

record user =
  uid :: int
  email :: string
  hashed_password :: string
  user_status :: user_status
  role_name :: string
  role_permissions :: "string list"

record refresh_token =
  token_hash :: string
  token_user_id :: int
  expires_at :: timestamp
  revoked :: bool

text \<open>
  The tables \<open>users\<close> and \<open>refresh_tokens\<close> in row order.  \<open>query.filter(...).first()\<close>
  is the first row that satisfies the filter, \<open>List.find\<close>.
\<close>

record auth_db =
  users :: "user list"
  refresh_tokens :: "refresh_token list"

text \<open>The claims of a decoded JWT that the routers read with \<open>payload.get\<close>.\<close>

record token_payload =
  payload_user_id :: "int option"
  payload_type :: "string option"

text \<open>
  \<open>app/utils/auth.py\<close> and \<open>app/utils/jwt.py\<close> are not among the source files, so what
  the routers import from them is a parameter: password verification, the two token
  constructors (which read the clock for the expiry claim), \<open>decode_token\<close> (\<open>None\<close>
  on a bad signature, a malformed payload or an elapsed expiry claim) and
  \<open>hash_token\<close>.
\<close>

record token_service =
  verify_password :: "string \<Rightarrow> string \<Rightarrow> bool"
  create_access_token :: "int \<Rightarrow> string \<Rightarrow> string \<Rightarrow> timestamp \<Rightarrow> string"
  create_refresh_token :: "int \<Rightarrow> timestamp \<Rightarrow> string"
  decode_token :: "string \<Rightarrow> timestamp \<Rightarrow> token_payload option"
  hash_token :: "string \<Rightarrow> string"

record login_request =
  login_email :: string
  login_password :: string

record token =
  access_token :: string
  refresh_token_str :: string
  token_type :: string

text \<open>
  \<open>login\<close>.  The column \<open>token_hash\<close> is unique: storing a hash that is already in the
  table makes \<open>db.commit()\<close> raise, nothing is stored, and no handler catches it.
\<close>

definition login ::
  "token_service \<Rightarrow> timestamp \<Rightarrow> login_request \<Rightarrow> auth_db \<Rightarrow> py_error + (token \<times> auth_db)" where
  "login svc now login_data db =
     (case find (\<lambda>u. email u = login_email login_data) (users db) of
        None \<Rightarrow> Inl (HTTPException 401 ''Incorrect email or password'')
      | Some user \<Rightarrow>
          if \<not> verify_password svc (login_password login_data) (hashed_password user)
          then Inl (HTTPException 401 ''Incorrect email or password'')
          else if user_status user \<noteq> user_active
          then Inl (HTTPException 401 ''User account is inactive'')
          else
            (let access = create_access_token svc (uid user) (email user) (role_name user) now;
                 refresh = create_refresh_token svc (uid user) now;
                 h = hash_token svc refresh;
                 expires = now + timedelta_days 7;
                 db_refresh_token =
                   \<lparr> token_hash = h, token_user_id = uid user,
                     expires_at = expires, revoked = False \<rparr>
             in if list_ex (\<lambda>t. token_hash t = h) (refresh_tokens db)
                then Inl IntegrityError
                else Inr (\<lparr> access_token = access, refresh_token_str = refresh,
                            token_type = ''bearer'' \<rparr>,
                          db \<lparr> refresh_tokens := refresh_tokens db @ [db_refresh_token] \<rparr>)))"

text \<open>\<open>refresh_access_token\<close>: the database is only read.\<close>

definition refresh_access_token ::
  "token_service \<Rightarrow> timestamp \<Rightarrow> string \<Rightarrow> auth_db \<Rightarrow> py_error + token" where
  "refresh_access_token svc now refresh_data db =
     (case decode_token svc refresh_data now of
        None \<Rightarrow> Inl (HTTPException 401 ''Invalid refresh token'')
      | Some payload \<Rightarrow>
          if payload_type payload \<noteq> Some ''refresh''
          then Inl (HTTPException 401 ''Invalid refresh token'')
          else
            (case find (\<lambda>t. token_hash t = hash_token svc refresh_data \<and> revoked t = False)
                    (refresh_tokens db) of
               None \<Rightarrow> Inl (HTTPException 401 ''Refresh token not found or has been revoked'')
             | Some db_token \<Rightarrow>
                 if expires_at db_token < now
                 then Inl (HTTPException 401 ''Refresh token has expired'')
                 else
                   (case find (\<lambda>u. Some (uid u) = payload_user_id payload) (users db) of
                      None \<Rightarrow> Inl (HTTPException 401 ''User not found or inactive'')
                    | Some user \<Rightarrow>
                        if user_status user \<noteq> user_active
                        then Inl (HTTPException 401 ''User not found or inactive'')
                        else Inr \<lparr> access_token =
                                     create_access_token svc (uid user) (email user)
                                       (role_name user) now,
                                   refresh_token_str = refresh_data,
                                   token_type = ''bearer'' \<rparr>)))"

text \<open>\<open>get_current_user\<close>, the dependency that authenticates the bearer token.\<close>

definition get_current_user ::
  "token_service \<Rightarrow> timestamp \<Rightarrow> string \<Rightarrow> auth_db \<Rightarrow> py_error + user" where
  "get_current_user svc now credentials db =
     (case decode_token svc credentials now of
        None \<Rightarrow> Inl (HTTPException 401 ''Invalid authentication credentials'')
      | Some payload \<Rightarrow>
          if payload_type payload \<noteq> Some ''access''
          then Inl (HTTPException 401 ''Invalid token type'')
          else
            (case payload_user_id payload of
               None \<Rightarrow> Inl (HTTPException 401 ''Invalid token payload'')
             | Some user_id \<Rightarrow>
                 (case find (\<lambda>u. uid u = user_id) (users db) of
                    None \<Rightarrow> Inl (HTTPException 401 ''User not found'')
                  | Some user \<Rightarrow>
                      if user_status user \<noteq> user_active
                      then Inl (HTTPException 401 ''User account is inactive'')
                      else Inr user)))"

text \<open>
  \<open>logout\<close>.  The query has no condition on \<open>revoked\<close> or \<open>expires_at\<close>: the first row
  with the token's hash and the caller's id is marked revoked, and the answer is the
  same message whether or not a row was found.
\<close>

fun revoke_first :: "(refresh_token \<Rightarrow> bool) \<Rightarrow> refresh_token list \<Rightarrow> refresh_token list" where
  "revoke_first P [] = []"
| "revoke_first P (t # ts) =
     (if P t then t \<lparr> revoked := True \<rparr> # ts else t # revoke_first P ts)"

definition logout :: "token_service \<Rightarrow> string \<Rightarrow> user \<Rightarrow> auth_db \<Rightarrow> string \<times> auth_db" where
  "logout svc refresh_data current_user db =
     (let h = hash_token svc refresh_data;
          matches = (\<lambda>t. h = token_hash t \<and> uid current_user = token_user_id t)
      in case find matches (refresh_tokens db) of
           None \<Rightarrow> (''Successfully logged out'', db)
         | Some db_token \<Rightarrow>
             (''Successfully logged out'',
              db \<lparr> refresh_tokens := revoke_first matches (refresh_tokens db) \<rparr>))"

text \<open>The endpoint \<open>POST /api/auth/logout\<close>: the dependency, then the body.\<close>

definition logout_endpoint ::
  "token_service \<Rightarrow> timestamp \<Rightarrow> string \<Rightarrow> string \<Rightarrow> auth_db \<Rightarrow> py_error + (string \<times> auth_db)" where
  "logout_endpoint svc now credentials refresh_data db =
     (case get_current_user svc now credentials db of
        Inl e \<Rightarrow> Inl e
      | Inr current_user \<Rightarrow> Inr (logout svc refresh_data current_user db))"

text \<open>
  One step of the token table: a successful login or a logout.  A refresh and every
  failed request leave the table as it is.
\<close>

inductive auth_step :: "token_service \<Rightarrow> auth_db \<Rightarrow> auth_db \<Rightarrow> bool" for svc where
  step_login: "login svc now login_data db = Inr (tok, db') \<Longrightarrow> auth_step svc db db'"
| step_logout:
    "logout_endpoint svc now credentials refresh_data db = Inr (msg, db') \<Longrightarrow>
     auth_step svc db db'"

text \<open>
  The states of a refresh-token record, named by its hash \<open>h\<close>: the table holds a row
  with this hash, and every such row is revoked, respectively expired at \<open>now\<close>.
\<close>

definition token_revoked :: "auth_db \<Rightarrow> string \<Rightarrow> bool" where
  "token_revoked db h =
     (list_ex (\<lambda>t. token_hash t = h) (refresh_tokens db) \<and>
      list_all (\<lambda>t. token_hash t = h \<longrightarrow> revoked t) (refresh_tokens db))"

definition token_expired :: "auth_db \<Rightarrow> string \<Rightarrow> timestamp \<Rightarrow> bool" where
  "token_expired db h now =
     (list_ex (\<lambda>t. token_hash t = h) (refresh_tokens db) \<and>
      list_all (\<lambda>t. token_hash t = h \<longrightarrow> expires_at t < now) (refresh_tokens db))"

definition is_401 :: "py_error + 'a \<Rightarrow> bool" where
  "is_401 r = (case r of Inl (HTTPException code detail) \<Rightarrow> code = 401 | _ \<Rightarrow> False)"

text \<open>
  The unique constraint on the column \<open>token_hash\<close>; the first test of
  \<open>refresh_access_token\<close>, \<open>payload is None or payload.get("type") != "refresh"\<close>, negated;
  and the filter of the query in \<open>logout\<close>.
\<close>

definition unique_hashes :: "auth_db \<Rightarrow> bool" where
  "unique_hashes db = distinct (map token_hash (refresh_tokens db))"

definition decodes_as_refresh :: "token_service \<Rightarrow> string \<Rightarrow> timestamp \<Rightarrow> bool" where
  "decodes_as_refresh svc refresh_data now =
     (case decode_token svc refresh_data now of
        None \<Rightarrow> False
      | Some payload \<Rightarrow> payload_type payload = Some ''refresh'')"

definition owns_row :: "user \<Rightarrow> string \<Rightarrow> refresh_token \<Rightarrow> bool" where
  "owns_row current_user h t = (h = token_hash t \<and> uid current_user = token_user_id t)"

text \<open>
  A token service for the examples: passwords hash to \<open>pw:<password>\<close>, a token's hash
  is \<open>h:<token>\<close>, the access token of user 1 is the fixed string \<open>access-1\<close>,
  \<open>refresh-1\<close> is the refresh token of an earlier session of user 1, and a login
  issues \<open>refresh-2\<close>.
\<close>

definition example_service :: token_service where
  "example_service =
     \<lparr> verify_password = (\<lambda>plain hashed. hashed = ''pw:'' @ plain),
       create_access_token = (\<lambda>user_id mail role now. ''access-1''),
       create_refresh_token = (\<lambda>user_id now. ''refresh-2''),
       decode_token = (\<lambda>t now.
          if t = ''access-1''
          then Some \<lparr> payload_user_id = Some 1, payload_type = Some ''access'' \<rparr>
          else if t = ''refresh-1'' \<or> t = ''refresh-2''
          then Some \<lparr> payload_user_id = Some 1, payload_type = Some ''refresh'' \<rparr>
          else None),
       hash_token = (\<lambda>t. ''h:'' @ t) \<rparr>"

definition example_user :: "user_status \<Rightarrow> user" where
  "example_user st =
     \<lparr> uid = 1, email = ''admin@test.com'', hashed_password = ''pw:AdminTest123!'',
       user_status = st, role_name = ''admin'',
       role_permissions = [''read:stores'', ''write:stores'', ''delete:stores''] \<rparr>"

definition example_auth_db :: "user_status \<Rightarrow> bool \<Rightarrow> auth_db" where
  "example_auth_db st is_revoked =
     \<lparr> users = [example_user st],
       refresh_tokens =
         [\<lparr> token_hash = ''h:refresh-1'', token_user_id = 1,
            expires_at = 1000, revoked = is_revoked \<rparr>] \<rparr>"

text \<open>
  The same database after user 1 has logged in once more at time 0: the row of
  \<open>refresh-2\<close> is appended, valid for seven days.
\<close>

definition example_login :: login_request where
  "example_login = \<lparr> login_email = ''admin@test.com'', login_password = ''AdminTest123!'' \<rparr>"

definition example_auth_db_2 :: "bool \<Rightarrow> auth_db" where
  "example_auth_db_2 is_revoked =
     \<lparr> users = [example_user user_active],
       refresh_tokens =
         [\<lparr> token_hash = ''h:refresh-1'', token_user_id = 1,
            expires_at = 1000, revoked = is_revoked \<rparr>,
          \<lparr> token_hash = ''h:refresh-2'', token_user_id = 1,
            expires_at = timedelta_days 7, revoked = False \<rparr>] \<rparr>"


section \<open>Cache: \<open>app/utils/cache.py\<close>\<close>

text \<open>
  \<open>SimpleCache\<close>: a dictionary from keys to entries.  \<open>datetime.utcnow()\<close> is the
  argument \<open>now\<close>.  \<open>get\<close> deletes an entry it finds expired, so it returns the cache
  as well.
\<close>

record 'v cache_entry =
  entry_value :: 'v
  entry_expires_at :: timestamp
  entry_created_at :: timestamp

type_synonym ('k, 'v) simple_cache = "'k \<rightharpoonup> 'v cache_entry"

definition cache_get ::
  "('k, 'v) simple_cache \<Rightarrow> timestamp \<Rightarrow> 'k \<Rightarrow> 'v option \<times> ('k, 'v) simple_cache" where
  "cache_get c now key =
     (case c key of
        None \<Rightarrow> (None, c)
      | Some entry \<Rightarrow>
          if now > entry_expires_at entry then (None, c(key := None))
          else (Some (entry_value entry), c))"

definition cache_set ::
  "('k, 'v) simple_cache \<Rightarrow> timestamp \<Rightarrow> 'k \<Rightarrow> 'v \<Rightarrow> int \<Rightarrow> ('k, 'v) simple_cache" where
  "cache_set c now key v ttl_seconds =
     c(key \<mapsto> \<lparr> entry_value = v,
                 entry_expires_at = now + timedelta_seconds ttl_seconds,
                 entry_created_at = now \<rparr>)"

definition cache_delete :: "('k, 'v) simple_cache \<Rightarrow> 'k \<Rightarrow> ('k, 'v) simple_cache" where
  "cache_delete c key = (if key \<in> dom c then c(key := None) else c)"

definition cache_clear :: "('k, 'v) simple_cache \<Rightarrow> ('k, 'v) simple_cache" where
  "cache_clear c = Map.empty"

definition GEOCODING_TTL :: int where
  "GEOCODING_TTL = 30 * 24 * 60 * 60"

definition SEARCH_TTL :: int where
  "SEARCH_TTL = 5 * 60"

section \<open>Stores: \<open>app/models.py\<close>\<close>

datatype store_type = flagship | regular | outlet | express

text \<open>\<open>StoreType\<close> is a string enumeration; \<open>.value\<close> is the string.\<close>

fun store_type_value :: "store_type \<Rightarrow> string" where
  "store_type_value flagship = ''flagship''"
| "store_type_value regular = ''regular''"
| "store_type_value outlet = ''outlet''"
| "store_type_value express = ''express''"

datatype store_status = active | inactive | temporarily_closed

text \<open>
  A row of the table \<open>stores\<close>.  The column \<open>store_type\<close> holds the enumeration's string,
  which is what the routers write and compare; the hours columns and the phone are
  nullable.  The timestamps \<open>created_at\<close> and \<open>updated_at\<close>, which no operation here
  reads, are left out.
\<close>

record store =
  store_id :: string
  name :: string
  store_type :: string
  status :: store_status
  latitude :: real
  longitude :: real
  address_street :: string
  address_city :: string
  address_state :: string
  address_postal_code :: string
  address_country :: string
  phone :: "string option"
  hours_mon :: "string option"
  hours_tue :: "string option"
  hours_wed :: "string option"
  hours_thu :: "string option"
  hours_fri :: "string option"
  hours_sat :: "string option"
  hours_sun :: "string option"

text \<open>
  The database: the table \<open>stores\<close> and the association table \<open>store_services\<close> of
  pairs (store id, service name), both in row order.  A query without \<open>ORDER BY\<close>
  returns the rows in this order.
\<close>

record db_state =
  stores :: "store list"
  store_services :: "(string \<times> string) list"

text \<open>
  \<open>[s.service_name for s in db.execute(store_services.select().where(...)).fetchall()]\<close>
\<close>

definition services_of :: "db_state \<Rightarrow> string \<Rightarrow> string list" where
  "services_of db sid = map snd (filter (\<lambda>row. fst row = sid) (store_services db))"

text \<open>\<open>store.__dict__.copy()\<close> with the key \<open>services\<close> added.\<close>

record store_dict =
  dict_store :: store
  dict_services :: "string list"

definition store_with_services :: "db_state \<Rightarrow> store \<Rightarrow> store_dict" where
  "store_with_services db s =
     \<lparr> dict_store = s, dict_services = services_of db (store_id s) \<rparr>"

section \<open>Geocoding: \<open>app/utils/geocoding.py\<close>\<close>

record geo_result =
  geo_latitude :: real
  geo_longitude :: real
  formatted_address :: string

text \<open>
  \<open>str.lower()\<close> on code points below 256: the capital letters A-Z and the capital
  letters 192-222 other than the multiplication sign 215 move up by 32.
\<close>

definition py_lower_char :: "char \<Rightarrow> char" where
  "py_lower_char c =
     (let n = (of_char c :: nat)
      in if (65 \<le> n \<and> n \<le> 90) \<or> (192 \<le> n \<and> n \<le> 222 \<and> n \<noteq> 215)
         then char_of (n + 32) else c)"

definition py_lower :: "string \<Rightarrow> string" where
  "py_lower s = map py_lower_char s"

text \<open>
  The process has one \<open>SimpleCache\<close>.  Its keys start with \<open>search:\<close> or with
  \<open>geocode:address:\<close>, and an entry under the first prefix is a search response, one
  under the second a geocoding result; so the dictionary is held as its two parts.
  A search key \<open>search:<lat>:<lon>:<radius><suffix>\<close> is kept as its four components
  (no component but the suffix contains a colon, so two keys are equal exactly when
  their components are); the radius, printed by \<open>str\<close>, is kept as the number.  A
  geocoding key is kept as the text after the prefix.
\<close>

type_synonym search_key = "string \<times> string \<times> real \<times> string"


record 'r cache_state =
  search_cache :: "(search_key, 'r) simple_cache"
  geocode_cache :: "(string, geo_result) simple_cache"

text \<open>\<open>cache.clear()\<close> empties the one dictionary, hence both parts.\<close>

definition clear_cache :: "'r cache_state \<Rightarrow> 'r cache_state" where
  "clear_cache c =
     \<lparr> search_cache = cache_clear (search_cache c),
       geocode_cache = cache_clear (geocode_cache c) \<rparr>"

text \<open>
  \<open>geocode_address\<close>.  The provider call \<open>geolocator.geocode(address, timeout=10)\<close> is
  the parameter \<open>nominatim\<close>; \<open>None\<close> is no location and also the two exceptions that
  the function catches.
\<close>

definition geocode_address ::
  "(string \<Rightarrow> geo_result option) \<Rightarrow> timestamp \<Rightarrow> string \<Rightarrow> 'r cache_state \<Rightarrow>
   geo_result option \<times> 'r cache_state" where
  "geocode_address nominatim now address c =
     (let cache_key = py_lower address;
          (cached_result, g) = cache_get (geocode_cache c) now cache_key
      in case cached_result of
           Some r \<Rightarrow> (Some r, c \<lparr> geocode_cache := g \<rparr>)
         | None \<Rightarrow>
             (case nominatim address of
                Some location \<Rightarrow>
                  (Some location,
                   c \<lparr> geocode_cache := cache_set g now cache_key location GEOCODING_TTL \<rparr>)
              | None \<Rightarrow> (None, c \<lparr> geocode_cache := g \<rparr>)))"

definition geocode_postal_code ::
  "(string \<Rightarrow> geo_result option) \<Rightarrow> timestamp \<Rightarrow> string \<Rightarrow> 'r cache_state \<Rightarrow>
   geo_result option \<times> 'r cache_state" where
  "geocode_postal_code nominatim now postal_code c =
     geocode_address nominatim now (postal_code @ '', USA'') c"

section \<open>Search: \<open>app/schemas.py\<close>, \<open>app/routers/search.py\<close>\<close>

subsection \<open>Number formatting\<close>

text \<open>
  Python rounds a float to a number of decimals with ties going to the even
  neighbour.
\<close>

definition round_half_even :: "real \<Rightarrow> int" where
  "round_half_even x =
     (let f = \<lfloor>x\<rfloor>; d = x - of_int f
      in if d < 1 / 2 then f
         else if 1 / 2 < d then f + 1
         else if even f then f else f + 1)"

text \<open>\<open>round(distance, 2)\<close>\<close>

definition round2 :: "real \<Rightarrow> real" where
  "round2 x = of_int (round_half_even (x * 100)) / 100"

function decimal :: "nat \<Rightarrow> string" where
  "decimal n = (if n < 10 then [digit_char n] else decimal (n div 10) @ [digit_char (n mod 10)])"
  by pat_completeness auto
termination
  by (relation "measure id") auto

declare decimal.simps [simp del]

text \<open>
  The format \<open>{x:.4f}\<close>: a minus sign for a negative number (also when it rounds to
  zero), the integer part, a point and four decimals.
\<close>

definition format_4f :: "real \<Rightarrow> string" where
  "format_4f x =
     (let n = nat (round_half_even (\<bar>x\<bar> * 10000));
          frac = n mod 10000
      in (if x < 0 then ''-'' else '''') @ decimal (n div 10000) @ ''.'' @
         [digit_char (frac div 1000), digit_char (frac div 100 mod 10),
          digit_char (frac div 10 mod 10), digit_char (frac mod 10)])"

text \<open>\<open>sep.join(xs)\<close>\<close>

fun join :: "string \<Rightarrow> string list \<Rightarrow> string" where
  "join sep [] = []"
| "join sep [x] = x"
| "join sep (x # y # ys) = x @ sep @ join sep (y # ys)"

subsection \<open>The request and its validation\<close>

record search_request =
  req_address :: "string option"
  req_postal_code :: "string option"
  req_latitude :: "real option"
  req_longitude :: "real option"
  req_radius_miles :: real
  req_services :: "string list option"
  req_store_types :: "store_type list option"
  req_open_now :: "bool option"

text \<open>
  Python truth values: \<open>None\<close>, the float zero, the empty string, the empty list and
  \<open>False\<close> are false.
\<close>

definition truthy_float :: "real option \<Rightarrow> bool" where
  "truthy_float x = (case x of None \<Rightarrow> False | Some v \<Rightarrow> v \<noteq> 0)"

definition truthy_str :: "string option \<Rightarrow> bool" where
  "truthy_str s = (case s of None \<Rightarrow> False | Some v \<Rightarrow> v \<noteq> [])"

definition truthy_list :: "'a list option \<Rightarrow> bool" where
  "truthy_list xs = (case xs of None \<Rightarrow> False | Some v \<Rightarrow> v \<noteq> [])"

definition truthy_bool :: "bool option \<Rightarrow> bool" where
  "truthy_bool b = (case b of None \<Rightarrow> False | Some v \<Rightarrow> v)"

text \<open>
  The constraints of the fields (\<open>ge\<close>, \<open>le\<close>), which pydantic checks first, and then
  the model validator \<open>validate_lat_lon_pair\<close>.  Either failure is a 422.
\<close>

definition in_range :: "real \<Rightarrow> real \<Rightarrow> real option \<Rightarrow> bool" where
  "in_range lo hi x = (case x of None \<Rightarrow> True | Some v \<Rightarrow> lo \<le> v \<and> v \<le> hi)"

definition field_constraints :: "search_request \<Rightarrow> bool" where
  "field_constraints r =
     (in_range (- 90) 90 (req_latitude r) \<and> in_range (- 180) 180 (req_longitude r) \<and>
      0 \<le> req_radius_miles r \<and> req_radius_miles r \<le> 100)"

definition validate_lat_lon_pair :: "search_request \<Rightarrow> py_error + search_request" where
  "validate_lat_lon_pair self =
     (if (req_latitude self \<noteq> None \<and> req_longitude self = None) \<or>
         (req_longitude self \<noteq> None \<and> req_latitude self = None)
      then Inl (ValidationError ''Both latitude and longitude must be provided together'')
      else if \<not> (truthy_str (req_address self) \<or> truthy_str (req_postal_code self) \<or>
                  truthy_float (req_latitude self))
      then Inl (ValidationError
        ''At least one of address, postal_code, or latitude/longitude must be provided'')
      else Inr self)"

definition validate_search_request :: "search_request \<Rightarrow> py_error + search_request" where
  "validate_search_request r =
     (if \<not> field_constraints r then Inl (ValidationError ''field constraint violated'')
      else validate_lat_lon_pair r)"

subsection \<open>The response\<close>

datatype location_info =
    coordinates real real
  | postal_code string real real string
  | address string real real string

fun location_latitude :: "location_info \<Rightarrow> real" where
  "location_latitude (coordinates la lo) = la"
| "location_latitude (postal_code p la lo f) = la"
| "location_latitude (address a la lo f) = la"

fun location_longitude :: "location_info \<Rightarrow> real" where
  "location_longitude (coordinates la lo) = lo"
| "location_longitude (postal_code p la lo f) = lo"
| "location_longitude (address a la lo f) = lo"

record search_result =
  result_store :: store_dict
  distance_miles :: real
  is_open_now :: bool

record filters =
  radius_miles :: real
  services :: "string list"
  store_types :: "string list"
  open_now :: "bool option"

record search_response =
  results :: "search_result list"
  search_location :: location_info
  filters_applied :: filters
  total_results :: nat

record app_state =
  app_db :: db_state
  app_cache :: "search_response cache_state"

subsection \<open>\<open>search_stores\<close>\<close>

text \<open>
  The test \<open>search_request.latitude and search_request.longitude\<close>, which the function
  makes three times: both are present and neither is the float zero.  The result
  carries the two numbers.
\<close>

definition latitude_and_longitude :: "search_request \<Rightarrow> (real \<times> real) option" where
  "latitude_and_longitude sr =
     (if truthy_float (req_latitude sr) \<and> truthy_float (req_longitude sr)
      then (case (req_latitude sr, req_longitude sr) of
              (Some la, Some lo) \<Rightarrow> Some (la, lo)
            | _ \<Rightarrow> None)
      else None)"

text \<open>\<open>xs or []\<close>\<close>

definition or_empty :: "'a list option \<Rightarrow> 'a list" where
  "or_empty xs = (case xs of None \<Rightarrow> [] | Some v \<Rightarrow> v)"

definition search_cache_key :: "real \<Rightarrow> real \<Rightarrow> search_request \<Rightarrow> search_key" where
  "search_cache_key la lo sr =
     (format_4f la, format_4f lo, req_radius_miles sr,
      (if truthy_list (req_services sr)
       then '':'' @ join '','' (sort (or_empty (req_services sr))) else '''') @
      (if truthy_list (req_store_types sr)
       then '':'' @ join '','' (sort (map store_type_value (or_empty (req_store_types sr))))
       else ''''))"

text \<open>Lines 46-57: the look-up that comes before everything else.\<close>

definition cached_search ::
  "timestamp \<Rightarrow> search_request \<Rightarrow> app_state \<Rightarrow> search_response option \<times> app_state" where
  "cached_search now sr st =
     (case latitude_and_longitude sr of
        None \<Rightarrow> (None, st)
      | Some (la, lo) \<Rightarrow>
          if truthy_bool (req_open_now sr) then (None, st)
          else
            (let (cached_result, sc) =
                   cache_get (search_cache (app_cache st)) now (search_cache_key la lo sr)
             in (cached_result, st \<lparr> app_cache := (app_cache st) \<lparr> search_cache := sc \<rparr> \<rparr>)))"

text \<open>Lines 200-207: the write after the response is built.\<close>

definition store_search ::
  "timestamp \<Rightarrow> search_request \<Rightarrow> search_response \<Rightarrow> search_response cache_state \<Rightarrow>
   search_response cache_state" where
  "store_search now sr response c =
     (case latitude_and_longitude sr of
        None \<Rightarrow> c
      | Some (la, lo) \<Rightarrow>
          if truthy_bool (req_open_now sr) then c
          else c \<lparr> search_cache :=
                   cache_set (search_cache c) now (search_cache_key la lo sr) response
                     SEARCH_TTL \<rparr>)"

text \<open>Step 1, lines 59-114: the origin of the search.\<close>

definition resolve_origin ::
  "(string \<Rightarrow> geo_result option) \<Rightarrow> timestamp \<Rightarrow> search_request \<Rightarrow>
   search_response cache_state \<Rightarrow>
   (py_error + (real \<times> real \<times> location_info)) \<times> search_response cache_state" where
  "resolve_origin nominatim now sr c =
     (case latitude_and_longitude sr of
        Some (la, lo) \<Rightarrow> (Inr (la, lo, coordinates la lo), c)
      | None \<Rightarrow>
          if truthy_str (req_postal_code sr) then
            (let code = (case req_postal_code sr of None \<Rightarrow> [] | Some v \<Rightarrow> v);
                 (result, c') = geocode_postal_code nominatim now code c
             in case result of
                  None \<Rightarrow>
                    (Inl (HTTPException 400 (''Could not geocode postal code: '' @ code)), c')
                | Some g \<Rightarrow>
                    (Inr (geo_latitude g, geo_longitude g,
                          postal_code code (geo_latitude g) (geo_longitude g)
                            (formatted_address g)), c'))
          else if truthy_str (req_address sr) then
            (let addr = (case req_address sr of None \<Rightarrow> [] | Some v \<Rightarrow> v);
                 (result, c') = geocode_address nominatim now addr c
             in case result of
                  None \<Rightarrow> (Inl (HTTPException 400 (''Could not geocode address: '' @ addr)), c')
                | Some g \<Rightarrow>
                    (Inr (geo_latitude g, geo_longitude g,
                          address addr (geo_latitude g) (geo_longitude g)
                            (formatted_address g)), c'))
          else
            (Inl (HTTPException 400
               ''Must provide either address, postal_code, or coordinates (latitude & longitude)''),
             c))"

text \<open>
  Step 3, lines 119-130: the rows inside the box that are active, and of a requested
  type when types are requested.  \<open>between\<close> includes both ends.
\<close>

definition query_stores :: "bounding_box \<Rightarrow> search_request \<Rightarrow> db_state \<Rightarrow> store list" where
  "query_stores bbox sr d =
     filter
       (\<lambda>s. min_lat bbox \<le> latitude s \<and> latitude s \<le> max_lat bbox \<and>
            min_lon bbox \<le> longitude s \<and> longitude s \<le> max_lon bbox \<and>
            status s = active \<and>
            (if truthy_list (req_store_types sr)
             then store_type s \<in> set (map store_type_value (or_empty (req_store_types sr)))
             else True))
       (stores d)"

text \<open>
  \<open>calculate_distance\<close> hands the two points to \<open>geopy.distance.geodesic\<close> and reads the
  miles; the library function is the parameter \<open>geodesic\<close>.
\<close>

definition calculate_distance ::
  "(real \<times> real \<Rightarrow> real \<times> real \<Rightarrow> real) \<Rightarrow> real \<Rightarrow> real \<Rightarrow> real \<Rightarrow> real \<Rightarrow> real" where
  "calculate_distance geodesic lat1 lon1 lat2 lon2 =
     (let point1 = (lat1, lon1); point2 = (lat2, lon2) in geodesic point1 point2)"

definition hours_dict_of :: "store \<Rightarrow> hours_dict" where
  "hours_dict_of s =
     map_of [(''hours_mon'', hours_mon s), (''hours_tue'', hours_tue s),
             (''hours_wed'', hours_wed s), (''hours_thu'', hours_thu s),
             (''hours_fri'', hours_fri s), (''hours_sat'', hours_sat s),
             (''hours_sun'', hours_sun s)]"

text \<open>
  Step 4, the body of the loop at lines 134-180 for one store: \<open>None\<close> is
  \<open>continue\<close>, \<open>Some\<close> is the appended result.
\<close>

definition search_result_for ::
  "(real \<times> real \<Rightarrow> real \<times> real \<Rightarrow> real) \<Rightarrow> local_datetime \<Rightarrow> search_request \<Rightarrow> db_state \<Rightarrow>
   real \<Rightarrow> real \<Rightarrow> store \<Rightarrow> search_result option" where
  "search_result_for geodesic now_local sr d search_lat search_lon s =
     (let distance = calculate_distance geodesic search_lat search_lon (latitude s) (longitude s)
      in if distance > req_radius_miles sr then None
         else
           (let services_list = services_of d (store_id s)
            in if truthy_list (req_services sr) \<and>
                  \<not> list_all (\<lambda>service. service \<in> set services_list) (or_empty (req_services sr))
               then None
               else
                 (let is_open = is_store_open_now (hours_dict_of s) now_local
                  in if truthy_bool (req_open_now sr) \<and> \<not> is_open then None
                     else Some \<lparr> result_store =
                                   \<lparr> dict_store = s, dict_services = services_list \<rparr>,
                                 distance_miles = round2 distance,
                                 is_open_now = is_open \<rparr>)))"

text \<open>
  Steps 3 to 6, lines 119-198: the query, the loop, the sort and the response.
  \<open>list.sort\<close> is stable, as \<open>sort_key\<close> is.
\<close>

definition build_response ::
  "(real \<times> real \<Rightarrow> real \<times> real \<Rightarrow> real) \<Rightarrow> local_datetime \<Rightarrow> search_request \<Rightarrow> db_state \<Rightarrow>
   real \<Rightarrow> real \<Rightarrow> location_info \<Rightarrow> bounding_box \<Rightarrow> search_response" where
  "build_response geodesic now_local sr d search_lat search_lon search_location_info bbox =
     (let found = query_stores bbox sr d;
          unsorted =
            List.map_filter
              (search_result_for geodesic now_local sr d search_lat search_lon) found;
          sorted_results = sort_key distance_miles unsorted
      in \<lparr> results = sorted_results,
           search_location = search_location_info,
           filters_applied =
             \<lparr> radius_miles = req_radius_miles sr,
               services = or_empty (req_services sr),
               store_types = map store_type_value (or_empty (req_store_types sr)),
               open_now = req_open_now sr \<rparr>,
           total_results = length sorted_results \<rparr>)"

text \<open>
  Lines 59-209, what the function does when the look-up has not answered: the origin,
  the box, the response, and the write to the cache.  \<open>now\<close> is \<open>datetime.utcnow()\<close> for
  the cache, \<open>now_local\<close> is \<open>datetime.now()\<close> for the opening hours.
\<close>

definition computed_search ::
  "(real \<times> real \<Rightarrow> real \<times> real \<Rightarrow> real) \<Rightarrow> (string \<Rightarrow> geo_result option) \<Rightarrow> timestamp \<Rightarrow>
   local_datetime \<Rightarrow> search_request \<Rightarrow> app_state \<Rightarrow> (py_error + search_response) \<times> app_state" where
  "computed_search geodesic nominatim now now_local sr st1 =
     (case resolve_origin nominatim now sr (app_cache st1) of
        (Inl e, c) \<Rightarrow> (Inl e, st1 \<lparr> app_cache := c \<rparr>)
      | (Inr (search_lat, search_lon, search_location_info), c) \<Rightarrow>
          (case calculate_bounding_box math_cos_radians search_lat search_lon
                  (req_radius_miles sr) of
             Inl e \<Rightarrow> (Inl e, st1 \<lparr> app_cache := c \<rparr>)
           | Inr bbox \<Rightarrow>
               (let response =
                      build_response geodesic now_local sr (app_db st1) search_lat
                        search_lon search_location_info bbox
                in (Inr response,
                    st1 \<lparr> app_cache := store_search now sr response c \<rparr>))))"

text \<open>The whole function: the look-up of lines 46-57 first.\<close>

definition search_stores ::
  "(real \<times> real \<Rightarrow> real \<times> real \<Rightarrow> real) \<Rightarrow> (string \<Rightarrow> geo_result option) \<Rightarrow> timestamp \<Rightarrow>
   local_datetime \<Rightarrow> search_request \<Rightarrow> app_state \<Rightarrow> (py_error + search_response) \<times> app_state" where
  "search_stores geodesic nominatim now now_local sr st =
     (let (cached_result, st1) = cached_search now sr st
      in case cached_result of
           Some r \<Rightarrow> (Inr r, st1)
         | None \<Rightarrow> computed_search geodesic nominatim now now_local sr st1)"

text \<open>
  The endpoint \<open>POST /api/stores/search\<close>: the body is validated against
  \<open>StoreSearchRequest\<close>, then the function runs.
\<close>

definition post_search ::
  "(real \<times> real \<Rightarrow> real \<times> real \<Rightarrow> real) \<Rightarrow> (string \<Rightarrow> geo_result option) \<Rightarrow> timestamp \<Rightarrow>
   local_datetime \<Rightarrow> search_request \<Rightarrow> app_state \<Rightarrow> (py_error + search_response) \<times> app_state" where
  "post_search geodesic nominatim now now_local body st =
     (case validate_search_request body of
        Inl e \<Rightarrow> (Inl e, st)
      | Inr sr \<Rightarrow> search_stores geodesic nominatim now now_local sr st)"

text \<open>
  The great-circle distance in miles by the haversine formula, on a sphere of radius
  3958.8 miles: the distance that the examples give to \<open>calculate_distance\<close>.
\<close>

definition haversine_miles :: "real \<times> real \<Rightarrow> real \<times> real \<Rightarrow> real" where
  "haversine_miles p q =
     (let phi1 = radians (fst p); phi2 = radians (fst q);
          dphi = radians (fst q - fst p); dlambda = radians (snd q - snd p);
          a = (sin (dphi / 2))\<^sup>2 + cos phi1 * cos phi2 * (sin (dlambda / 2))\<^sup>2
      in 2 * 3958.8 * arcsin (sqrt a))"

section \<open>Store endpoints: \<open>app/routers/stores.py\<close>\<close>

text \<open>
  \<open>require_permission\<close>, the dependency of every endpoint below: a membership test on
  the permissions of the authenticated user's role.  The endpoint bodies that follow
  run once it has returned the user.
\<close>

definition require_permission :: "string \<Rightarrow> user \<Rightarrow> py_error + user" where
  "require_permission permission_name current_user =
     (if permission_name \<in> set (role_permissions current_user) then Inr current_user
      else Inl (HTTPException 403
             (''Permission denied: requires '' @ [CHR 0x27] @ permission_name @ [CHR 0x27])))"

text \<open>
  \<open>get_all_stores\<close>: \<open>db.query(Store).offset(skip).limit(limit).all()\<close>, each row with
  its services.  \<open>skip\<close> and \<open>limit\<close> are natural numbers here (what a negative
  offset or limit does depends on the database).
\<close>

definition get_all_stores :: "nat \<Rightarrow> nat \<Rightarrow> db_state \<Rightarrow> store_dict list" where
  "get_all_stores skip limit d =
     map (store_with_services d) (take limit (drop skip (stores d)))"

definition get_store :: "string \<Rightarrow> db_state \<Rightarrow> py_error + store_dict" where
  "get_store sid d =
     (case find (\<lambda>s. store_id s = sid) (stores d) of
        None \<Rightarrow> Inl (HTTPException 404 ''Store not found'')
      | Some s \<Rightarrow> Inr (store_with_services d s))"

text \<open>The object that \<open>first()\<close> returned is changed in place: the first matching row.\<close>

fun update_first :: "('a \<Rightarrow> bool) \<Rightarrow> ('a \<Rightarrow> 'a) \<Rightarrow> 'a list \<Rightarrow> 'a list" where
  "update_first P f [] = []"
| "update_first P f (x # xs) = (if P x then f x # xs else x # update_first P f xs)"

text \<open>\<open>delete_store\<close>: the soft delete, then \<open>cache.clear()\<close>.\<close>

definition delete_store :: "string \<Rightarrow> app_state \<Rightarrow> (py_error + unit) \<times> app_state" where
  "delete_store sid st =
     (case find (\<lambda>s. store_id s = sid) (stores (app_db st)) of
        None \<Rightarrow> (Inl (HTTPException 404 ''Store not found''), st)
      | Some s \<Rightarrow>
          (Inr (),
           st \<lparr> app_db := (app_db st)
                  \<lparr> stores := update_first (\<lambda>s. store_id s = sid)
                                (\<lambda>s. s \<lparr> status := inactive \<rparr>) (stores (app_db st)) \<rparr>,
                app_cache := clear_cache (app_cache st) \<rparr>))"

text \<open>The body of \<open>POST /api/stores\<close>, the schema \<open>StoreCreate\<close>.\<close>

record store_create =
  new_store_id :: string
  new_name :: string
  new_store_type :: store_type
  new_status :: store_status
  new_latitude :: "real option"
  new_longitude :: "real option"
  new_address_street :: string
  new_address_city :: string
  new_address_state :: string
  new_address_postal_code :: string
  new_address_country :: string
  new_phone :: "string option"
  new_services :: "string list"
  new_hours_mon :: string
  new_hours_tue :: string
  new_hours_wed :: string
  new_hours_thu :: string
  new_hours_fri :: string
  new_hours_sat :: string
  new_hours_sun :: string

definition new_row :: "store_create \<Rightarrow> real \<Rightarrow> real \<Rightarrow> store" where
  "new_row d la lo =
     \<lparr> store_id = new_store_id d, name = new_name d,
       store_type = store_type_value (new_store_type d), status = new_status d,
       latitude = la, longitude = lo,
       address_street = new_address_street d, address_city = new_address_city d,
       address_state = new_address_state d,
       address_postal_code = new_address_postal_code d,
       address_country = new_address_country d, phone = new_phone d,
       hours_mon = Some (new_hours_mon d), hours_tue = Some (new_hours_tue d),
       hours_wed = Some (new_hours_wed d), hours_thu = Some (new_hours_thu d),
       hours_fri = Some (new_hours_fri d), hours_sat = Some (new_hours_sat d),
       hours_sun = Some (new_hours_sun d) \<rparr>"

text \<open>
  \<open>create_store\<close>.  The coordinates are geocoded when one is missing and the address
  is there; a row that still has no coordinate violates \<open>NOT NULL\<close> at \<open>db.flush()\<close>,
  which is before \<open>cache.clear()\<close>; a service listed twice violates the primary key
  of \<open>store_services\<close> after it.  Either exception rolls the transaction back.
\<close>

definition create_store ::
  "(string \<Rightarrow> geo_result option) \<Rightarrow> timestamp \<Rightarrow> store_create \<Rightarrow> app_state \<Rightarrow>
   (py_error + store_dict) \<times> app_state" where
  "create_store nominatim now store_data st =
     (case find (\<lambda>s. store_id s = new_store_id store_data) (stores (app_db st)) of
        Some existing \<Rightarrow> (Inl (HTTPException 400 ''Store ID already exists''), st)
      | None \<Rightarrow>
          (let services_list = new_services store_data;
               wants_geocode =
                 ((new_latitude store_data = None \<or> new_longitude store_data = None) \<and>
                  new_address_street store_data \<noteq> [] \<and> new_address_city store_data \<noteq> [] \<and>
                  new_address_state store_data \<noteq> []);
               full_address =
                 new_address_street store_data @ '', '' @ new_address_city store_data @ '', '' @
                 new_address_state store_data;
               (geo, c) =
                 (if wants_geocode then geocode_address nominatim now full_address (app_cache st)
                  else (None, app_cache st));
               la = (case geo of Some g \<Rightarrow> Some (geo_latitude g) | None \<Rightarrow> new_latitude store_data);
               lo = (case geo of Some g \<Rightarrow> Some (geo_longitude g) | None \<Rightarrow> new_longitude store_data)
           in case (la, lo) of
                (Some la', Some lo') \<Rightarrow>
                  (let row = new_row store_data la' lo'
                   in if \<not> distinct services_list
                      then (Inl IntegrityError, st \<lparr> app_cache := clear_cache c \<rparr>)
                      else
                        (Inr \<lparr> dict_store = row, dict_services = services_list \<rparr>,
                         st \<lparr> app_db :=
                                \<lparr> stores = stores (app_db st) @ [row],
                                  store_services =
                                    store_services (app_db st) @
                                    map (\<lambda>service. (store_id row, service)) services_list \<rparr>,
                              app_cache := clear_cache c \<rparr>))
              | _ \<Rightarrow> (Inl IntegrityError, st \<lparr> app_cache := c \<rparr>)))"

section \<open>Bulk import: \<open>app/routers/admin.py\<close>\<close>

text \<open>
  A row as \<open>csv.DictReader\<close> yields it: a dictionary from the header names to the
  fields, with \<open>None\<close> for a field that a short line lacks and the last column winning
  when a header name occurs twice.  Lines without any field are skipped.
\<close>

type_synonym csv_row = "string \<rightharpoonup> string option"

definition dict_reader_row :: "string list \<Rightarrow> string list \<Rightarrow> csv_row" where
  "dict_reader_row fieldnames cells =
     map_of (rev (zip fieldnames
       (map Some cells @ replicate (length fieldnames - length cells) None)))"

definition dict_reader :: "string list \<Rightarrow> string list list \<Rightarrow> csv_row list" where
  "dict_reader fieldnames lines =
     map (dict_reader_row fieldnames) (filter (\<lambda>cells. cells \<noteq> []) lines)"

text \<open>\<open>row.get(key, default)\<close>, and \<open>row[key]\<close> where \<open>Inl\<close> is the text of the \<open>KeyError\<close>.\<close>

definition row_get :: "csv_row \<Rightarrow> string \<Rightarrow> string option \<Rightarrow> string option" where
  "row_get row key dflt = (case row key of None \<Rightarrow> dflt | Some v \<Rightarrow> v)"

definition row_item :: "csv_row \<Rightarrow> string \<Rightarrow> string + string option" where
  "row_item row key =
     (case row key of
        None \<Rightarrow> Inl ([CHR 0x27] @ key @ [CHR 0x27])
      | Some v \<Rightarrow> Inr v)"

text \<open>How an f-string prints a field.\<close>

definition str_of :: "string option \<Rightarrow> string" where
  "str_of v = (case v of None \<Rightarrow> ''None'' | Some s \<Rightarrow> s)"

text \<open>
  \<open>StoreImportResult\<close>: the field \<open>store_id\<close> is a \<open>str\<close>, so a record cannot be built for
  a row whose \<open>store_id\<close> is \<open>None\<close>.
\<close>

record store_import_result =
  row_number :: nat
  result_store_id :: string
  result_status :: string
  result_error :: "string option"

record bulk_import_response =
  total_rows :: nat
  created :: nat
  updated :: nat
  failed :: nat
  failed_records :: "store_import_result list"

definition required_headers :: "string list" where
  "required_headers =
     [''store_id'', ''name'', ''store_type'', ''address_street'',
      ''address_city'', ''address_state'', ''address_postal_code'']"

definition valid_types :: "string list" where
  "valid_types = [''regular'', ''flagship'', ''outlet'', ''pop-up'']"

text \<open>
  What the \<open>try\<close> block of one row comes to: an explicit failure record (the
  \<open>continue\<close> branches), an exception caught by \<open>except Exception\<close> with its text,
  or the store to upsert with its services.

  The model follows the executions in which every failure record can be built and the
  database takes every write.  The others are \<open>unmodelled\<close>: a row whose \<open>store_id\<close>
  is \<open>None\<close> (a short line), for which \<open>StoreImportResult\<close> itself raises, also in the
  handler; and a row that the tables refuse at \<open>flush\<close> or \<open>execute\<close>, after which
  the fate of the rows that follow and of the commit depends on the state of the
  session.  The tables refuse a \<open>store_type\<close> that is not a name of the enumeration
  \<open>StoreType\<close>, a \<open>None\<close> in one of the address columns (\<open>NOT NULL\<close>), a state or a
  postal code longer than the column, and a pair (store, service) that is already
  there (the primary key of \<open>store_services\<close>).
\<close>

datatype row_plan =
    reject string
  | raised string
  | upsert store "string list"
  | unmodelled

definition enum_names :: "string list" where
  "enum_names = map store_type_value [flagship, regular, outlet, express]"

definition database_accepts :: "db_state \<Rightarrow> csv_row \<Rightarrow> store \<Rightarrow> string list \<Rightarrow> bool" where
  "database_accepts d row s services_list =
     (store_type s \<in> set enum_names \<and>
      list_all (\<lambda>key. row key \<noteq> Some None)
        [''address_street'', ''address_city'', ''address_state'', ''address_postal_code''] \<and>
      length (address_state s) \<le> 2 \<and> length (address_postal_code s) \<le> 5 \<and>
      distinct services_list \<and>
      (list_ex (\<lambda>x. store_id x = store_id s) (stores d) \<or>
       list_all (\<lambda>r. fst r \<noteq> store_id s) (store_services d)))"

text \<open>
  The address that is geocoded when a coordinate is missing.  The four fields are
  read with \<open>row[...]\<close>.
\<close>

definition full_address_of :: "csv_row \<Rightarrow> string + string" where
  "full_address_of row =
     (case row_item row ''address_street'' of
        Inl e \<Rightarrow> Inl e
      | Inr street \<Rightarrow>
          (case row_item row ''address_city'' of
             Inl e \<Rightarrow> Inl e
           | Inr city \<Rightarrow>
               (case row_item row ''address_state'' of
                  Inl e \<Rightarrow> Inl e
                | Inr state \<Rightarrow>
                    (case row_item row ''address_postal_code'' of
                       Inl e \<Rightarrow> Inl e
                     | Inr code \<Rightarrow>
                         Inr (str_of street @ '', '' @ str_of city @ '', '' @ str_of state @
                              '' '' @ str_of code)))))"

text \<open>
  The coordinates of a row: the two fields parsed by \<open>float\<close> (the parameter
  \<open>py_float\<close>, \<open>None\<close> for a \<open>ValueError\<close>), or the geocoder's answer when a field is
  missing or empty.  The geocoder goes through the cache.
\<close>

datatype coordinates_outcome =
    no_geocode
  | bad_format
  | key_error string
  | located real real

definition row_coordinates ::
  "(string \<Rightarrow> geo_result option) \<Rightarrow> (string \<Rightarrow> real option) \<Rightarrow> timestamp \<Rightarrow> csv_row \<Rightarrow>
   search_response cache_state \<Rightarrow> coordinates_outcome \<times> search_response cache_state" where
  "row_coordinates nominatim py_float now row c =
     (let lat_field = row_get row ''latitude'' None;
          lon_field = row_get row ''longitude'' None
      in if \<not> truthy_str lat_field \<or> \<not> truthy_str lon_field then
           (case full_address_of row of
              Inl e \<Rightarrow> (key_error e, c)
            | Inr full_address \<Rightarrow>
                (let (geocode_result, c') = geocode_address nominatim now full_address c
                 in case geocode_result of
                      Some g \<Rightarrow> (located (geo_latitude g) (geo_longitude g), c')
                    | None \<Rightarrow> (no_geocode, c')))
         else
           (case py_float (str_of lat_field) of
              None \<Rightarrow> (bad_format, c)
            | Some la \<Rightarrow>
                (case py_float (str_of lon_field) of
                   None \<Rightarrow> (bad_format, c)
                 | Some lo \<Rightarrow> (located la lo, c))))"

text \<open>
  \<open>str.strip()\<close> removes leading and trailing whitespace in the sense of
  \<open>str.isspace\<close>: below 256 these are the code points 9-13, 28-32, 133 and 160.
\<close>

definition py_isspace :: "char \<Rightarrow> bool" where
  "py_isspace c =
     (let n = (of_char c :: nat)
      in (9 \<le> n \<and> n \<le> 13) \<or> (28 \<le> n \<and> n \<le> 32) \<or> n = 133 \<or> n = 160)"

definition py_strip :: "string \<Rightarrow> string" where
  "py_strip s = rev (dropWhile py_isspace (rev (dropWhile py_isspace s)))"

text \<open>\<open>[s.strip() for s in services_str.split('|') if s.strip()]\<close>\<close>

definition parse_services :: "string \<Rightarrow> string list" where
  "parse_services services_str =
     filter (\<lambda>s. s \<noteq> []) (map py_strip (split_on CHR ''|'' services_str))"

text \<open>
  The fields that both the update and the insert write.  \<open>existing\<close> is the row being
  updated, whose status and country stay, or \<open>None\<close> for an insert, which is active
  and gets the column default \<open>USA\<close>.
\<close>

definition row_store ::
  "csv_row \<Rightarrow> string \<Rightarrow> real \<Rightarrow> real \<Rightarrow> store option \<Rightarrow> string + store" where
  "row_store row the_type la lo existing =
     (case (row_item row ''store_id'', row_item row ''name'', row_item row ''address_street'',
            row_item row ''address_city'', row_item row ''address_state'',
            row_item row ''address_postal_code'') of
        (Inr sid, Inr nm, Inr street, Inr city, Inr state, Inr code) \<Rightarrow>
          Inr \<lparr> store_id = str_of sid, name = str_of nm, store_type = the_type,
                status = (case existing of None \<Rightarrow> active | Some s \<Rightarrow> status s),
                latitude = la, longitude = lo,
                address_street = str_of street, address_city = str_of city,
                address_state = str_of state, address_postal_code = str_of code,
                address_country =
                  (case existing of None \<Rightarrow> ''USA'' | Some s \<Rightarrow> address_country s),
                phone = row_get row ''phone'' (Some ''''),
                hours_mon = row_get row ''hours_monday'' (Some ''closed''),
                hours_tue = row_get row ''hours_tuesday'' (Some ''closed''),
                hours_wed = row_get row ''hours_wednesday'' (Some ''closed''),
                hours_thu = row_get row ''hours_thursday'' (Some ''closed''),
                hours_fri = row_get row ''hours_friday'' (Some ''closed''),
                hours_sat = row_get row ''hours_saturday'' (Some ''closed''),
                hours_sun = row_get row ''hours_sunday'' (Some ''closed'') \<rparr>
      | (Inl e, _) \<Rightarrow> Inl e
      | (_, Inl e, _) \<Rightarrow> Inl e
      | (_, _, Inl e, _) \<Rightarrow> Inl e
      | (_, _, _, Inl e, _) \<Rightarrow> Inl e
      | (_, _, _, _, Inl e, _) \<Rightarrow> Inl e
      | (_, _, _, _, _, Inl e) \<Rightarrow> Inl e)"

definition attribute_error :: "string \<Rightarrow> string" where
  "attribute_error attr =
     [CHR 0x27] @ ''NoneType'' @ [CHR 0x27] @ '' object has no attribute '' @
     [CHR 0x27] @ attr @ [CHR 0x27]"

text \<open>
  The \<open>try\<close> block of one row, lines 81-211, up to the database writes.  A field that
  is \<open>None\<close> has no \<open>lower\<close> and no \<open>split\<close>: an \<open>AttributeError\<close>.
\<close>

definition plan_row ::
  "(string \<Rightarrow> geo_result option) \<Rightarrow> (string \<Rightarrow> real option) \<Rightarrow> timestamp \<Rightarrow> csv_row \<Rightarrow>
   app_state \<Rightarrow> row_plan \<times> search_response cache_state" where
  "plan_row nominatim py_float now row st =
     (if row_get row ''store_id'' None = None then (unmodelled, app_cache st)
      else if \<not> truthy_str (row_get row ''store_id'' None) \<or>
              \<not> truthy_str (row_get row ''name'' None)
      then (reject ''Missing store_id or name'', app_cache st)
      else
        (case row_coordinates nominatim py_float now row (app_cache st) of
           (no_geocode, c) \<Rightarrow>
             (reject ''Could not geocode address and no coordinates provided'', c)
         | (bad_format, c) \<Rightarrow> (reject ''Invalid latitude or longitude format'', c)
         | (key_error e, c) \<Rightarrow> (raised e, c)
         | (located la lo, c) \<Rightarrow>
             (case row_get row ''store_type'' (Some ''regular'') of
                None \<Rightarrow>
                  (raised (attribute_error ''lower''), c)
              | Some type_field \<Rightarrow>
                  (let the_type = py_lower type_field
                   in if the_type \<notin> set valid_types
                      then (reject (''Invalid store_type. Must be one of: '' @
                                    join '', '' valid_types), c)
                      else
                        (case row_get row ''services'' (Some '''') of
                           None \<Rightarrow> (raised (attribute_error ''split''), c)
                         | Some services_str \<Rightarrow>
                             (let services_list = parse_services services_str;
                                  existing_store =
                                    find (\<lambda>s. Some (store_id s) = row_get row ''store_id'' None)
                                      (stores (app_db st))
                              in case row_store row the_type la lo existing_store of
                                   Inl e \<Rightarrow> (raised e, c)
                                 | Inr s \<Rightarrow>
                                     if database_accepts (app_db st) row s services_list
                                     then (upsert s services_list, c)
                                     else (unmodelled, c)))))))"

text \<open>
  The loop state: the two counters, the failure records, and the application state.
  \<open>None\<close> is an execution that the model does not follow.
\<close>

record import_state =
  created_count :: nat
  updated_count :: nat
  failures :: "store_import_result list"
  import_app :: app_state

definition failure_record :: "nat \<Rightarrow> csv_row \<Rightarrow> string \<Rightarrow> store_import_result" where
  "failure_record row_num row msg =
     \<lparr> row_number = row_num,
       result_store_id = str_of (row_get row ''store_id'' (Some ''UNKNOWN'')),
       result_status = ''failed'',
       result_error = Some msg \<rparr>"

definition import_row ::
  "(string \<Rightarrow> geo_result option) \<Rightarrow> (string \<Rightarrow> real option) \<Rightarrow> timestamp \<Rightarrow> nat \<Rightarrow> csv_row \<Rightarrow>
   import_state \<Rightarrow> import_state option" where
  "import_row nominatim py_float now row_num row acc =
     (case plan_row nominatim py_float now row (import_app acc) of
        (unmodelled, c) \<Rightarrow> None
      | (reject msg, c) \<Rightarrow>
          Some (acc \<lparr> failures := failures acc @ [failure_record row_num row msg],
                      import_app := (import_app acc) \<lparr> app_cache := c \<rparr> \<rparr>)
      | (raised msg, c) \<Rightarrow>
          Some (acc \<lparr> failures := failures acc @ [failure_record row_num row msg],
                      import_app := (import_app acc) \<lparr> app_cache := c \<rparr> \<rparr>)
      | (upsert s services_list, c) \<Rightarrow>
          (let d = app_db (import_app acc);
               exists = list_ex (\<lambda>x. store_id x = store_id s) (stores d);
               new_services = map (\<lambda>service. (store_id s, service)) services_list;
               d' =
                 (if exists
                  then \<lparr> stores = update_first (\<lambda>x. store_id x = store_id s) (\<lambda>x. s) (stores d),
                         store_services =
                           filter (\<lambda>r. fst r \<noteq> store_id s) (store_services d) @ new_services \<rparr>
                  else \<lparr> stores = stores d @ [s],
                         store_services = store_services d @ new_services \<rparr>)
           in Some (acc \<lparr> created_count :=
                             (if exists then created_count acc else created_count acc + 1),
                           updated_count :=
                             (if exists then updated_count acc + 1 else updated_count acc),
                           import_app := \<lparr> app_db = d', app_cache = c \<rparr> \<rparr>)))"

text \<open>\<open>for row_num, row in enumerate(csv_reader, start=2)\<close>\<close>

fun import_rows ::
  "(string \<Rightarrow> geo_result option) \<Rightarrow> (string \<Rightarrow> real option) \<Rightarrow> timestamp \<Rightarrow> nat \<Rightarrow>
   csv_row list \<Rightarrow> import_state \<Rightarrow> import_state option" where
  "import_rows nominatim py_float now row_num [] acc = Some acc"
| "import_rows nominatim py_float now row_num (row # rest) acc =
     (case import_row nominatim py_float now row_num row acc of
        None \<Rightarrow> None
      | Some acc' \<Rightarrow> import_rows nominatim py_float now (row_num + 1) rest acc')"

definition endswith :: "string \<Rightarrow> string \<Rightarrow> bool" where
  "endswith s suffix = (length suffix \<le> length s \<and> drop (length s - length suffix) s = suffix)"

text \<open>
  \<open>bulk_import_stores\<close>: the file name, the header line and the lines of the decoded
  file are the input.  The function never touches \<open>cache\<close> itself: the module does not
  import it.  The commit at the end succeeds, since every write was accepted.  When
  several required columns are missing, the message joins a \<open>set\<close>, in an order that
  is not determined: it is not modelled.
\<close>

definition bulk_import_stores ::
  "(string \<Rightarrow> geo_result option) \<Rightarrow> (string \<Rightarrow> real option) \<Rightarrow> timestamp \<Rightarrow> string \<Rightarrow>
   string list \<Rightarrow> string list list \<Rightarrow> app_state \<Rightarrow>
   ((py_error + bulk_import_response) \<times> app_state) option" where
  "bulk_import_stores nominatim py_float now filename fieldnames lines st =
     (if \<not> endswith filename ''.csv''
      then Some (Inl (HTTPException 400 ''File must be a CSV file''), st)
      else if \<not> list_all (\<lambda>h. h \<in> set fieldnames) required_headers
      then (case filter (\<lambda>h. h \<notin> set fieldnames) required_headers of
              [h] \<Rightarrow> Some (Inl (HTTPException 400 (''Missing required CSV columns: '' @ h)), st)
            | _ \<Rightarrow> None)
      else
        (case import_rows nominatim py_float now 2 (dict_reader fieldnames lines)
                \<lparr> created_count = 0, updated_count = 0, failures = [], import_app = st \<rparr> of
           None \<Rightarrow> None
         | Some acc \<Rightarrow>
             Some (Inr \<lparr> total_rows =
                           created_count acc + updated_count acc + length (failures acc),
                         created = created_count acc,
                         updated = updated_count acc,
                         failed = length (failures acc),
                         failed_records = failures acc \<rparr>,
                   import_app acc)))"

section \<open>Example data\<close>

text \<open>
  The store of the test suite, at (40.7128, -74.0060), open 09:00-21:00 every day,
  with one service; an application state that holds it and an empty cache; a
  geocoder that knows one postal code; the \<open>float\<close> of the two coordinate strings.
\<close>

definition example_store :: "string \<Rightarrow> store_status \<Rightarrow> store" where
  "example_store sid st =
     \<lparr> store_id = sid, name = ''Test Store'', store_type = ''regular'', status = st,
       latitude = 40.7128, longitude = - 74.0060,
       address_street = ''1 Main St'', address_city = ''New York'', address_state = ''NY'',
       address_postal_code = ''10001'', address_country = ''USA'', phone = None,
       hours_mon = Some ''09:00-21:00'', hours_tue = Some ''09:00-21:00'',
       hours_wed = Some ''09:00-21:00'', hours_thu = Some ''09:00-21:00'',
       hours_fri = Some ''09:00-21:00'', hours_sat = Some ''09:00-21:00'',
       hours_sun = Some ''09:00-21:00'' \<rparr>"

definition empty_cache :: "search_response cache_state" where
  "empty_cache = \<lparr> search_cache = Map.empty, geocode_cache = Map.empty \<rparr>"

definition example_db :: db_state where
  "example_db =
     \<lparr> stores = [example_store ''S0001'' active],
       store_services = [(''S0001'', ''pharmacy'')] \<rparr>"

definition example_state :: app_state where
  "example_state = \<lparr> app_db = example_db, app_cache = empty_cache \<rparr>"

definition example_nominatim :: "string \<Rightarrow> geo_result option" where
  "example_nominatim a =
     (if a = ''10001, USA''
      then Some \<lparr> geo_latitude = 40.7506, geo_longitude = - 73.9972,
                  formatted_address = ''New York, NY 10001, USA'' \<rparr>
      else None)"

definition example_float :: "string \<Rightarrow> real option" where
  "example_float s =
     (if s = ''40.7128'' then Some 40.7128
      else if s = ''-74.0060'' then Some (- 74.0060)
      else None)"

definition example_noon :: local_datetime where
  "example_noon = \<lparr> weekday_of = Mon, time_of = at_time 12 0 \<rparr>"

definition coordinate_request :: "real \<Rightarrow> real \<Rightarrow> real \<Rightarrow> search_request" where
  "coordinate_request la lo r =
     \<lparr> req_address = None, req_postal_code = None,
       req_latitude = Some la, req_longitude = Some lo, req_radius_miles = r,
       req_services = None, req_store_types = None, req_open_now = None \<rparr>"

definition example_fieldnames :: "string list" where
  "example_fieldnames =
     [''store_id'', ''name'', ''store_type'', ''latitude'', ''longitude'',
      ''address_street'', ''address_city'', ''address_state'', ''address_postal_code'']"

definition example_line :: "string \<Rightarrow> string \<Rightarrow> string list" where
  "example_line sid the_type =
     [sid, ''New Store'', the_type, ''40.7128'', ''-74.0060'',
      ''1 Main St'', ''New York'', ''NY'', ''10001'']"

text \<open>
  A request that gives both coordinates, the latitude being 0.0 (a point on the
  equator), and a postal code as well.
\<close>

definition zero_latitude_request :: search_request where
  "zero_latitude_request =
     \<lparr> req_address = None, req_postal_code = Some ''10001'',
       req_latitude = Some 0, req_longitude = Some 5, req_radius_miles = 10,
       req_services = None, req_store_types = None, req_open_now = None \<rparr>"

text \<open>
  The search of the test suite, ten miles around the example store, at a given time;
  the identifiers of the stores in an answer; the import of one new store at the same
  place.
\<close>

definition example_search :: "timestamp \<Rightarrow> app_state \<Rightarrow> (py_error + search_response) \<times> app_state" where
  "example_search now st =
     post_search haversine_miles example_nominatim now example_noon
       (coordinate_request 40.7128 (- 74.0060) 10) st"

definition found_ids :: "py_error + search_response \<Rightarrow> string list option" where
  "found_ids r =
     (case r of
        Inl e \<Rightarrow> None
      | Inr response \<Rightarrow>
          Some (map (\<lambda>x. store_id (dict_store (result_store x))) (results response)))"

definition example_import ::
  "app_state \<Rightarrow> ((py_error + bulk_import_response) \<times> app_state) option" where
  "example_import st =
     bulk_import_stores example_nominatim example_float 0 ''stores.csv'' example_fieldnames
       [example_line ''S0002'' ''regular''] st"

definition state_after_search :: app_state where
  "state_after_search = snd (example_search 0 example_state)"

definition state_after_import :: app_state where
  "state_after_import =
     (case example_import state_after_search of
        None \<Rightarrow> state_after_search
      | Some (response, st) \<Rightarrow> st)"

text \<open>The row that this import writes.\<close>

definition imported_store :: store where
  "imported_store =
     \<lparr> store_id = ''S0002'', name = ''New Store'', store_type = ''regular'', status = active,
       latitude = 40.7128, longitude = - 74.0060,
       address_street = ''1 Main St'', address_city = ''New York'', address_state = ''NY'',
       address_postal_code = ''10001'', address_country = ''USA'', phone = Some [],
       hours_mon = Some ''closed'', hours_tue = Some ''closed'', hours_wed = Some ''closed'',
       hours_thu = Some ''closed'', hours_fri = Some ''closed'', hours_sat = Some ''closed'',
       hours_sun = Some ''closed'' \<rparr>"

section \<open>Theorems: GeoMath\<close>

subsection \<open>Bounding box\<close>

lemma cos_radians_pos: "- 90 < d \<Longrightarrow> d < 90 \<Longrightarrow> 0 < cos (radians d)"
proof -
  assume a: "- 90 < d" "d < 90"
  have "- 90 * pi < d * pi" "d * pi < 90 * pi"
    using a pi_gt_zero by (simp_all only: mult_strict_right_mono)
  then have "- (pi / 2) < radians d" "radians d < pi / 2"
    by (simp_all add: radians_def)
  then show ?thesis by (rule cos_gt_zero_pi)
qed

lemma cos_at_pole_pos: "0 < cos_at_pole"
  by (simp add: cos_at_pole_def)

lemma math_cos_radians_pos: "- 90 \<le> d \<Longrightarrow> d \<le> 90 \<Longrightarrow> 0 < math_cos_radians d"
  using cos_radians_pos [of d] by (auto simp: math_cos_radians_def cos_at_pole_pos)

lemma calculate_bounding_box_nonzero:
  "cos_radians lat \<noteq> 0 \<Longrightarrow>
   calculate_bounding_box cos_radians lat lon r =
     Inr \<lparr> min_lat = lat - r / 69, max_lat = lat + r / 69,
           min_lon = lon - r / (69 * cos_radians lat),
           max_lon = lon + r / (69 * cos_radians lat) \<rparr>"
  by (simp add: calculate_bounding_box_def Let_def)




subsection \<open>Opening hours\<close>






lemma set_dropWhile_subset: "set (dropWhile P xs) \<subseteq> set xs"
  by (induction xs) auto

lemma set_int_strip: "set (int_strip s) \<subseteq> set s"
  using set_dropWhile_subset [of int_isspace "rev (dropWhile int_isspace s)"]
    set_dropWhile_subset [of int_isspace s]
  by (auto simp: int_strip_def)






lemma py_int_nonneg:
  assumes "py_int s = Some h" "CHR ''-'' \<notin> set s"
  shows "0 \<le> h"
proof -
  obtain c cs where c: "int_strip s = c # cs"
    using assms(1) by (cases "int_strip s") (auto simp: py_int_def)
  then have "c \<in> set s" using set_int_strip [of s] by auto
  then have "c \<noteq> CHR ''-''" using assms(2) by auto
  then show ?thesis using assms(1) c by (auto simp: py_int_def split: if_splits)
qed










lemma canonical_not_closed: "canonical_hours oh om ch cm \<noteq> ''closed''"
  by (simp add: canonical_hours_def hhmm_def)


text \<open>The look-up \<open>hours.get('hours_' + day, 'closed')\<close>, day by day.\<close>

lemma today_entry_keys:
  "today_entry hours now =
     (case hours (case weekday_of now of
                    Mon \<Rightarrow> ''hours_mon'' | Tue \<Rightarrow> ''hours_tue'' | Wed \<Rightarrow> ''hours_wed''
                  | Thu \<Rightarrow> ''hours_thu'' | Fri \<Rightarrow> ''hours_fri'' | Sat \<Rightarrow> ''hours_sat''
                  | Sun \<Rightarrow> ''hours_sun'') of
        None \<Rightarrow> Some ''closed''
      | Some v \<Rightarrow> v)"
  by (cases "weekday_of now") (simp_all add: today_entry_def)










section \<open>Theorems: authentication\<close>


lemma svc_simps:
  "verify_password example_service plain hashed = (hashed = ''pw:'' @ plain)"
  "hash_token example_service t = ''h:'' @ t"
  "create_refresh_token example_service u n = ''refresh-2''"
  "create_access_token example_service u m r n = ''access-1''"
  "decode_token example_service ''access-1'' n =
     Some \<lparr> payload_user_id = Some 1, payload_type = Some ''access'' \<rparr>"
  "decode_token example_service ''refresh-1'' n =
     Some \<lparr> payload_user_id = Some 1, payload_type = Some ''refresh'' \<rparr>"
  "decode_token example_service ''refresh-2'' n =
     Some \<lparr> payload_user_id = Some 1, payload_type = Some ''refresh'' \<rparr>"
  by (simp_all add: example_service_def)

lemma db_simps:
  "users (example_auth_db st rv) = [example_user st]"
  "refresh_tokens (example_auth_db st rv) =
     [\<lparr> token_hash = ''h:refresh-1'', token_user_id = 1, expires_at = 1000, revoked = rv \<rparr>]"
  by (simp_all add: example_auth_db_def)

lemma user_simps:
  "email (example_user st) = ''admin@test.com''"
  "hashed_password (example_user st) = ''pw:AdminTest123!''"
  "user_status (example_user st) = st"
  "uid (example_user st) = 1"
  by (simp_all add: example_user_def)

text \<open>
  C5, the claim as stated, fails: a login with the right password for an inactive
  account is answered with the detail \<open>User account is inactive\<close>, while an unknown
  email and a wrong password are answered with \<open>Incorrect email or password\<close>.  The
  three failures share the status 401 but not the message.
\<close>

theorem login_uniform_message_counterexample:
  "login example_service 0 \<lparr> login_email = ''admin@test.com'', login_password = ''AdminTest123!'' \<rparr>
     (example_auth_db user_inactive False) = Inl (HTTPException 401 ''User account is inactive'') \<and>
   login example_service 0 \<lparr> login_email = ''nobody@test.com'', login_password = ''AdminTest123!'' \<rparr>
     (example_auth_db user_inactive False) = Inl (HTTPException 401 ''Incorrect email or password'') \<and>
   login example_service 0 \<lparr> login_email = ''admin@test.com'', login_password = ''wrong'' \<rparr>
     (example_auth_db user_inactive False) = Inl (HTTPException 401 ''Incorrect email or password'')"
  by (simp add: login_def svc_simps db_simps user_simps)

text \<open>
  C5 as amended: every \<open>HTTPException\<close> of \<open>login\<close> has status 401.  An unknown email
  and a wrong password give the one message \<open>Incorrect email or password\<close>; the right
  password for an account that is not active gives the distinct message
  \<open>User account is inactive\<close>.  No other detail occurs.
\<close>

theorem login_failure_spec:
  "(find (\<lambda>u. email u = login_email d) (users db) = None \<longrightarrow>
      login svc now d db = Inl (HTTPException 401 ''Incorrect email or password'')) \<and>
   (\<forall>u. find (\<lambda>u. email u = login_email d) (users db) = Some u \<and>
        \<not> verify_password svc (login_password d) (hashed_password u) \<longrightarrow>
      login svc now d db = Inl (HTTPException 401 ''Incorrect email or password'')) \<and>
   (\<forall>u. find (\<lambda>u. email u = login_email d) (users db) = Some u \<and>
        verify_password svc (login_password d) (hashed_password u) \<and>
        user_status u \<noteq> user_active \<longrightarrow>
      login svc now d db = Inl (HTTPException 401 ''User account is inactive'')) \<and>
   (\<forall>code detail. login svc now d db = Inl (HTTPException code detail) \<longrightarrow>
      code = 401 \<and>
      (detail = ''Incorrect email or password'' \<or> detail = ''User account is inactive''))"
  by (auto simp: login_def Let_def split: option.splits if_splits)

theorem login_failure_spec_witness:
  "login example_service 0 \<lparr> login_email = ''admin@test.com'', login_password = ''AdminTest123!'' \<rparr>
     (example_auth_db user_inactive False) = Inl (HTTPException 401 ''User account is inactive'') \<and>
   login example_service 0 \<lparr> login_email = ''admin@test.com'', login_password = ''wrong'' \<rparr>
     (example_auth_db user_inactive False) = Inl (HTTPException 401 ''Incorrect email or password'')"
proof
  show "login example_service 0
          \<lparr> login_email = ''admin@test.com'', login_password = ''AdminTest123!'' \<rparr>
          (example_auth_db user_inactive False) =
        Inl (HTTPException 401 ''User account is inactive'')"
    by (rule login_failure_spec [THEN conjunct2, THEN conjunct2, THEN conjunct1, rule_format,
          where u = "example_user user_inactive"])
       (simp add: svc_simps db_simps user_simps)
  show "login example_service 0
          \<lparr> login_email = ''admin@test.com'', login_password = ''wrong'' \<rparr>
          (example_auth_db user_inactive False) =
        Inl (HTTPException 401 ''Incorrect email or password'')"
    by (rule login_failure_spec [THEN conjunct2, THEN conjunct1, rule_format,
          where u = "example_user user_inactive"])
       (simp add: svc_simps db_simps user_simps)
qed


subsection \<open>Refresh-token records\<close>

lemma revoke_first_hash: "map token_hash (revoke_first P ts) = map token_hash ts"
  by (induction ts) auto

lemma revoke_first_expires: "map expires_at (revoke_first P ts) = map expires_at ts"
  by (induction ts) auto

lemma revoke_first_revoked:
  "list_all (\<lambda>t. token_hash t = h \<longrightarrow> revoked t) ts \<Longrightarrow>
   list_all (\<lambda>t. token_hash t = h \<longrightarrow> revoked t) (revoke_first P ts)"
  by (induction ts) auto

lemma revoke_first_ex:
  "list_ex (\<lambda>t. token_hash t = h) (revoke_first P ts) = list_ex (\<lambda>t. token_hash t = h) ts"
  by (induction ts) auto

lemma revoke_first_expired:
  "list_all (\<lambda>t. token_hash t = h \<longrightarrow> expires_at t < now) (revoke_first P ts) =
   list_all (\<lambda>t. token_hash t = h \<longrightarrow> expires_at t < now) ts"
  by (induction ts) auto

lemma logout_tokens:
  "refresh_tokens (snd (logout svc tok u db)) = refresh_tokens db \<or>
   refresh_tokens (snd (logout svc tok u db)) =
     revoke_first (\<lambda>t. hash_token svc tok = token_hash t \<and> uid u = token_user_id t)
       (refresh_tokens db)"
  by (simp add: logout_def Let_def split: option.splits)

lemma logout_message: "fst (logout svc tok u db) = ''Successfully logged out''"
  by (simp add: logout_def Let_def split: option.splits)

lemma logout_keeps_revoked:
  "token_revoked db h \<Longrightarrow> token_revoked (snd (logout svc tok u db)) h"
  using logout_tokens [of svc tok u db]
  by (auto simp: token_revoked_def revoke_first_ex revoke_first_revoked)

lemma logout_keeps_expired:
  "token_expired db h now \<Longrightarrow> token_expired (snd (logout svc tok u db)) h now"
  using logout_tokens [of svc tok u db]
  by (auto simp: token_expired_def revoke_first_ex revoke_first_expired)

lemma login_tokens:
  assumes "login svc now d db = Inr (tok, db')"
  shows "\<exists>t. refresh_tokens db' = refresh_tokens db @ [t] \<and>
             \<not> list_ex (\<lambda>x. token_hash x = token_hash t) (refresh_tokens db)"
  using assms
  by (auto simp: login_def Let_def split: option.splits if_splits)

lemma login_keeps_revoked:
  assumes "login svc now d db = Inr (tok, db')" "token_revoked db h"
  shows "token_revoked db' h"
proof -
  obtain t where t: "refresh_tokens db' = refresh_tokens db @ [t]"
      "\<not> list_ex (\<lambda>x. token_hash x = token_hash t) (refresh_tokens db)"
    using login_tokens [OF assms(1)] by blast
  from assms(2) t(2) have "token_hash t \<noteq> h"
    by (auto simp: token_revoked_def)
  with assms(2) t(1) show ?thesis
    by (auto simp: token_revoked_def list_ex_iff list_all_iff)
qed

lemma login_keeps_expired:
  assumes "login svc now d db = Inr (tok, db')" "token_expired db h n"
  shows "token_expired db' h n"
proof -
  obtain t where t: "refresh_tokens db' = refresh_tokens db @ [t]"
      "\<not> list_ex (\<lambda>x. token_hash x = token_hash t) (refresh_tokens db)"
    using login_tokens [OF assms(1)] by blast
  from assms(2) t(2) have "token_hash t \<noteq> h"
    by (auto simp: token_expired_def)
  with assms(2) t(1) show ?thesis
    by (auto simp: token_expired_def list_ex_iff list_all_iff)
qed

lemma logout_endpoint_Inr:
  "logout_endpoint svc now credentials refresh_data db = Inr (msg, db') \<Longrightarrow>
   \<exists>u. db' = snd (logout svc refresh_data u db)"
  by (auto simp: logout_endpoint_def split: sum.splits) (metis snd_conv)

lemma step_keeps_revoked:
  assumes "auth_step svc db db'" "token_revoked db h"
  shows "token_revoked db' h"
  using assms
proof (cases rule: auth_step.cases)
  case (step_login now login_data tok)
  then show ?thesis using login_keeps_revoked assms(2) by blast
next
  case (step_logout now credentials refresh_data msg)
  then obtain u where "db' = snd (logout svc refresh_data u db)"
    using logout_endpoint_Inr by blast
  then show ?thesis using logout_keeps_revoked [OF assms(2)] by simp
qed

lemma step_keeps_expired:
  assumes "auth_step svc db db'" "token_expired db h n"
  shows "token_expired db' h n"
  using assms
proof (cases rule: auth_step.cases)
  case (step_login now login_data tok)
  then show ?thesis using login_keeps_expired assms(2) by blast
next
  case (step_logout now credentials refresh_data msg)
  then obtain u where "db' = snd (logout svc refresh_data u db)"
    using logout_endpoint_Inr by blast
  then show ?thesis using logout_keeps_expired [OF assms(2)] by simp
qed

lemma steps_keep_revoked:
  "(auth_step svc)\<^sup>*\<^sup>* db db' \<Longrightarrow> token_revoked db h \<Longrightarrow> token_revoked db' h"
  by (induction rule: rtranclp_induct) (auto intro: step_keeps_revoked)

lemma steps_keep_expired:
  "(auth_step svc)\<^sup>*\<^sup>* db db' \<Longrightarrow> token_expired db h n \<Longrightarrow> token_expired db' h n"
  by (induction rule: rtranclp_induct) (auto intro: step_keeps_expired)

lemma expired_mono: "token_expired db h n \<Longrightarrow> n \<le> n' \<Longrightarrow> token_expired db h n'"
  by (auto simp: token_expired_def list_all_iff)

lemma find_revoked_None:
  "token_revoked db h \<Longrightarrow>
   find (\<lambda>t. token_hash t = h \<and> \<not> revoked t) (refresh_tokens db) = None"
  by (auto simp: token_revoked_def find_None_iff list_all_iff)

lemma refresh_revoked_401:
  "token_revoked db (hash_token svc tok) \<Longrightarrow> is_401 (refresh_access_token svc now tok db)"
  by (simp add: refresh_access_token_def is_401_def find_revoked_None split: option.splits)

lemma refresh_expired_401:
  assumes "token_expired db (hash_token svc tok) now"
  shows "is_401 (refresh_access_token svc now tok db)"
proof -
  have "\<And>t. find (\<lambda>t. token_hash t = hash_token svc tok \<and> revoked t = False)
          (refresh_tokens db) = Some t \<Longrightarrow> expires_at t < now"
    using assms by (auto simp: token_expired_def list_all_iff find_Some_iff)
  then show ?thesis
    by (auto simp: refresh_access_token_def is_401_def split: option.splits)
qed


lemma revoke_first_length: "length (revoke_first P ts) = length ts"
  by (induction ts) auto

lemma revoke_first_nth:
  "i < length ts \<Longrightarrow>
   revoke_first P ts ! i =
     (if P (ts ! i) \<and> (\<forall>j<i. \<not> P (ts ! j)) then (ts ! i) \<lparr> revoked := True \<rparr> else ts ! i)"
proof (induction ts arbitrary: i)
  case Nil
  then show ?case by simp
next
  case (Cons t ts)
  show ?case
  proof (cases i)
    case 0
    then show ?thesis by simp
  next
    case (Suc k)
    then have k: "k < length ts" using Cons.prems by simp
    show ?thesis
    proof (cases "P t")
      case True
      then show ?thesis using Suc by auto
    next
      case False
      have a: "revoke_first P (t # ts) ! i = revoke_first P ts ! k"
        using False Suc by simp
      have b: "(t # ts) ! i = ts ! k"
        using Suc by simp
      have c: "(\<forall>j<i. \<not> P ((t # ts) ! j)) = (\<forall>j<k. \<not> P (ts ! j))"
        using False Suc by (auto simp: less_Suc_eq_0_disj)
      show ?thesis
        unfolding a b c by (rule Cons.IH [OF k])
    qed
  qed
qed

lemma revoke_first_id: "\<not> list_ex P ts \<Longrightarrow> revoke_first P ts = ts"
  by (induction ts) auto

lemma find_None_list_ex: "find P ts = None \<longleftrightarrow> \<not> list_ex P ts"
  by (auto simp: find_None_iff list_ex_iff)

lemma logout_table:
  "snd (logout svc tok u db) =
     db \<lparr> refresh_tokens := revoke_first (owns_row u (hash_token svc tok)) (refresh_tokens db) \<rparr>"
proof -
  have e: "(\<lambda>t. hash_token svc tok = token_hash t \<and> uid u = token_user_id t) =
      owns_row u (hash_token svc tok)"
    by (simp add: owns_row_def fun_eq_iff)
  show ?thesis
  proof (cases "list_ex (owns_row u (hash_token svc tok)) (refresh_tokens db)")
    case True
    then show ?thesis
      by (auto simp: logout_def Let_def e find_None_list_ex split: option.splits)
  next
    case False
    then show ?thesis
      by (simp add: logout_def Let_def e find_None_list_ex revoke_first_id split: option.splits)
  qed
qed

lemma logout_unowned:
  "\<not> list_ex (owns_row u (hash_token svc tok)) (refresh_tokens db) \<Longrightarrow>
   snd (logout svc tok u db) = db"
  by (simp add: logout_table revoke_first_id)

lemma distinct_map_nth_eq:
  "distinct (map f xs) \<Longrightarrow> i < length xs \<Longrightarrow> j < length xs \<Longrightarrow> f (xs ! i) = f (xs ! j) \<Longrightarrow>
   i = j"
  using nth_eq_iff_index_eq [of "map f xs" i j] by simp

lemma logout_revokes:
  assumes u: "unique_hashes db"
    and o: "list_ex (owns_row usr (hash_token svc tok)) (refresh_tokens db)"
  shows "token_revoked (snd (logout svc tok usr db)) (hash_token svc tok)"
proof -
  let ?h = "hash_token svc tok"
  let ?ts = "refresh_tokens db"
  let ?new = "revoke_first (owns_row usr ?h) ?ts"
  from o obtain k where k: "k < length ?ts" "owns_row usr ?h (?ts ! k)"
    by (auto simp: list_ex_iff in_set_conv_nth)
  have only: "i = k" if "i < length ?ts" "token_hash (?ts ! i) = ?h" for i
    using distinct_map_nth_eq [of token_hash ?ts i k] u that k
    by (simp add: unique_hashes_def owns_row_def)
  have first: "\<forall>j<k. \<not> owns_row usr ?h (?ts ! j)"
  proof (intro allI impI notI)
    fix j assume j: "j < k" "owns_row usr ?h (?ts ! j)"
    then have "j = k" using only [of j] k(1) by (simp add: owns_row_def)
    with j(1) show False by simp
  qed
  have "list_ex (\<lambda>t. token_hash t = ?h) ?ts"
    using k by (auto simp: list_ex_iff owns_row_def)
  then have ex: "list_ex (\<lambda>t. token_hash t = ?h) ?new"
    by (simp only: revoke_first_ex)
  have all: "list_all (\<lambda>t. token_hash t = ?h \<longrightarrow> revoked t) ?new"
    unfolding list_all_iff
  proof (intro ballI impI)
    fix t assume t: "t \<in> set ?new" "token_hash t = ?h"
    then obtain i where i: "i < length ?ts" "?new ! i = t"
      by (auto simp: in_set_conv_nth revoke_first_length)
    have "token_hash (?ts ! i) = ?h"
      using t(2) i nth_map [of i ?new token_hash] revoke_first_hash [of "owns_row usr ?h" ?ts]
      by (metis nth_map revoke_first_length)
    then have "i = k" using only i(1) by simp
    then show "revoked t"
      using i k first revoke_first_nth [of k ?ts "owns_row usr ?h"] by auto
  qed
  show ?thesis
    by (simp add: token_revoked_def logout_table ex all)
qed

lemma logout_keeps_unique: "unique_hashes db \<Longrightarrow> unique_hashes (snd (logout svc tok u db))"
  by (simp add: unique_hashes_def logout_table revoke_first_hash)

lemma login_keeps_unique:
  assumes "login svc now d db = Inr (tok, db')" "unique_hashes db"
  shows "unique_hashes db'"
proof -
  obtain t where t: "refresh_tokens db' = refresh_tokens db @ [t]"
      "\<not> list_ex (\<lambda>x. token_hash x = token_hash t) (refresh_tokens db)"
    using login_tokens [OF assms(1)] by blast
  then show ?thesis
    using assms(2) by (auto simp: unique_hashes_def list_ex_iff)
qed

lemma step_keeps_unique:
  assumes "auth_step svc db db'" "unique_hashes db"
  shows "unique_hashes db'"
  using assms
proof (cases rule: auth_step.cases)
  case (step_login now login_data tok)
  then show ?thesis using login_keeps_unique assms(2) by blast
next
  case (step_logout now credentials refresh_data msg)
  then obtain u where "db' = snd (logout svc refresh_data u db)"
    using logout_endpoint_Inr by blast
  then show ?thesis using logout_keeps_unique [OF assms(2)] by simp
qed

lemma steps_keep_unique:
  "(auth_step svc)\<^sup>*\<^sup>* db db' \<Longrightarrow> unique_hashes db \<Longrightarrow> unique_hashes db'"
  by (induction rule: rtranclp_induct) (auto intro: step_keeps_unique)

lemma refresh_revoked_detail:
  "token_revoked db (hash_token svc tok) \<Longrightarrow>
   refresh_access_token svc now tok db =
     Inl (HTTPException 401
            (if decodes_as_refresh svc tok now
             then ''Refresh token not found or has been revoked''
             else ''Invalid refresh token''))"
  by (simp add: refresh_access_token_def decodes_as_refresh_def find_revoked_None
      split: option.splits)

lemma refresh_expired_detail:
  assumes "token_expired db (hash_token svc tok) now"
    and "\<not> token_revoked db (hash_token svc tok)"
  shows "refresh_access_token svc now tok db =
     Inl (HTTPException 401
            (if decodes_as_refresh svc tok now
             then ''Refresh token has expired''
             else ''Invalid refresh token''))"
proof -
  let ?P = "\<lambda>t. token_hash t = hash_token svc tok \<and> revoked t = False"
  have "\<exists>t \<in> set (refresh_tokens db). ?P t"
    using assms by (auto simp: token_expired_def token_revoked_def list_all_iff list_ex_iff)
  then obtain t where t: "find ?P (refresh_tokens db) = Some t"
    by (cases "find ?P (refresh_tokens db)") (auto simp: find_None_iff)
  then have "expires_at t < now"
    using assms(1) by (auto simp: token_expired_def list_all_iff find_Some_iff)
  with t show ?thesis
    by (simp add: refresh_access_token_def decodes_as_refresh_def split: option.splits)
qed

lemma logout_endpoint_authenticated:
  "get_current_user svc now credentials db = Inr u \<Longrightarrow>
   logout_endpoint svc now credentials tok db =
     Inr (''Successfully logged out'', snd (logout svc tok u db))"
  using logout_message [of svc tok u db]
  by (simp add: logout_endpoint_def prod_eq_iff)

lemma example_get_current_user:
  "get_current_user example_service now ''access-1'' (example_auth_db user_active rv) =
     Inr (example_user user_active)"
  by (simp add: get_current_user_def svc_simps db_simps user_simps)

lemma example_logout:
  "logout_endpoint example_service now ''access-1'' ''refresh-1'' (example_auth_db user_active rv) =
     Inr (''Successfully logged out'', example_auth_db user_active True)"
  by (simp add: logout_endpoint_def example_get_current_user logout_def svc_simps db_simps
      user_simps)

lemma example_revoked:
  "token_revoked (example_auth_db user_active True) (hash_token example_service ''refresh-1'')"
  by (simp add: token_revoked_def svc_simps db_simps)

lemma example_expired:
  "token_expired (example_auth_db user_active False) (hash_token example_service ''refresh-1'') 2000"
  by (simp add: token_expired_def svc_simps db_simps)

lemma db_2_simps:
  "users (example_auth_db_2 rv) = [example_user user_active]"
  "refresh_tokens (example_auth_db_2 rv) =
     [\<lparr> token_hash = ''h:refresh-1'', token_user_id = 1, expires_at = 1000, revoked = rv \<rparr>,
      \<lparr> token_hash = ''h:refresh-2'', token_user_id = 1, expires_at = timedelta_days 7,
        revoked = False \<rparr>]"
  by (simp_all add: example_auth_db_2_def)

lemma example_login_step:
  "login example_service 0 example_login (example_auth_db user_active rv) =
     Inr (\<lparr> access_token = ''access-1'', refresh_token_str = ''refresh-2'',
            token_type = ''bearer'' \<rparr>,
          example_auth_db_2 rv)"
  by (simp add: login_def example_login_def svc_simps db_simps user_simps Let_def
      example_auth_db_def example_auth_db_2_def)

lemma example_steps:
  "(auth_step example_service)\<^sup>*\<^sup>* (example_auth_db user_active rv) (example_auth_db_2 rv)"
  by (rule r_into_rtranclp, rule step_login, rule example_login_step)

lemma example_get_current_user_2:
  "get_current_user example_service now ''access-1'' (example_auth_db_2 rv) =
     Inr (example_user user_active)"
  by (simp add: get_current_user_def svc_simps db_2_simps user_simps)

lemma example_logout_2:
  "snd (logout example_service ''refresh-1'' (example_user user_active) (example_auth_db_2 rv)) =
     example_auth_db_2 True"
  by (simp add: logout_def svc_simps db_2_simps user_simps Let_def example_auth_db_2_def)

text \<open>
  C6, the claim as stated, fails for \<open>logout\<close>: with a valid access token, a logout
  that presents a revoked refresh token succeeds, and so does one that presents an
  expired refresh token (the row expires at 1000, the clock reads 2000), which is
  then marked revoked.
\<close>

theorem logout_revoked_counterexample:
  "token_revoked (example_auth_db user_active True) (hash_token example_service ''refresh-1'') \<and>
   logout_endpoint example_service 0 ''access-1'' ''refresh-1'' (example_auth_db user_active True) =
     Inr (''Successfully logged out'', example_auth_db user_active True) \<and>
   token_expired (example_auth_db user_active False) (hash_token example_service ''refresh-1'') 2000 \<and>
   logout_endpoint example_service 2000 ''access-1'' ''refresh-1'' (example_auth_db user_active False) =
     Inr (''Successfully logged out'', example_auth_db user_active True)"
  by (simp add: example_logout example_revoked example_expired)

text \<open>
  C6 as amended.  Along every sequence of successful logins and logouts (a refresh
  does not write), from a table \<open>db\<close> to a table \<open>db'\<close>, and from a time \<open>now\<close> to a later
  time \<open>now'\<close>:
  \<^item> a record that is revoked stays revoked, a record that is expired stays expired
    at every later time (no operation sets \<open>revoked\<close> back or changes \<open>expires_at\<close>),
    and the hashes stay unique;
  \<^item> a refresh that presents a revoked token fails with status 401 and the detail
    \<open>Refresh token not found or has been revoked\<close>; a refresh that presents an expired
    token that is not revoked fails with status 401 and the different detail
    \<open>Refresh token has expired\<close>; in both cases a token that does not decode as a
    refresh token is answered \<open>Invalid refresh token\<close>, with status 401 as well;
  \<^item> a logout never fails on account of the refresh token: for every authenticated
    caller it answers \<open>Successfully logged out\<close>, whatever the state of the record.
    It is itself one step of the table.  It leaves the users alone and changes the
    table of tokens in one place at most: the first row that carries the token's hash
    and the caller's id gets \<open>revoked = True\<close>, every other row and every other field
    is as before.  So when the caller owns a row with this hash the record is revoked
    afterwards (and a refresh with it fails as above), and when not, the table is
    unchanged.
\<close>

theorem refresh_token_terminal:
  assumes "(auth_step svc)\<^sup>*\<^sup>* db db'" and "now \<le> now'"
  shows "(token_revoked db h \<longrightarrow> token_revoked db' h) \<and>
         (token_expired db h now \<longrightarrow> token_expired db' h now') \<and>
         (unique_hashes db \<longrightarrow> unique_hashes db') \<and>
         (token_revoked db (hash_token svc tok) \<or> token_expired db (hash_token svc tok) now \<longrightarrow>
            is_401 (refresh_access_token svc now' tok db')) \<and>
         (token_revoked db' (hash_token svc tok) \<longrightarrow>
            refresh_access_token svc now' tok db' =
              Inl (HTTPException 401
                     (if decodes_as_refresh svc tok now'
                      then ''Refresh token not found or has been revoked''
                      else ''Invalid refresh token''))) \<and>
         (token_expired db' (hash_token svc tok) now' \<and>
          \<not> token_revoked db' (hash_token svc tok) \<longrightarrow>
            refresh_access_token svc now' tok db' =
              Inl (HTTPException 401
                     (if decodes_as_refresh svc tok now'
                      then ''Refresh token has expired''
                      else ''Invalid refresh token''))) \<and>
         (\<forall>credentials u. get_current_user svc now' credentials db' = Inr u \<longrightarrow>
            (let db'' = snd (logout svc tok u db');
                 old_rows = refresh_tokens db';
                 new_rows = refresh_tokens db'';
                 mine = owns_row u (hash_token svc tok)
             in logout_endpoint svc now' credentials tok db' =
                  Inr (''Successfully logged out'', db'') \<and>
                auth_step svc db' db'' \<and>
                users db'' = users db' \<and>
                length new_rows = length old_rows \<and>
                (\<forall>i<length old_rows.
                   new_rows ! i =
                     (if mine (old_rows ! i) \<and> (\<forall>j<i. \<not> mine (old_rows ! j))
                      then (old_rows ! i) \<lparr> revoked := True \<rparr>
                      else old_rows ! i)) \<and>
                (unique_hashes db \<and> list_ex mine old_rows \<longrightarrow>
                   token_revoked db'' (hash_token svc tok)) \<and>
                (\<not> list_ex mine old_rows \<longrightarrow> db'' = db') \<and>
                (token_revoked db h \<longrightarrow> token_revoked db'' h)))"
proof (intro conjI impI allI)
  show "token_revoked db' h" if "token_revoked db h"
    using steps_keep_revoked [OF assms(1) that] .
  show "token_expired db' h now'" if "token_expired db h now"
    using expired_mono [OF steps_keep_expired [OF assms(1) that] assms(2)] .
  show "unique_hashes db'" if "unique_hashes db"
    using steps_keep_unique [OF assms(1) that] .
  show "is_401 (refresh_access_token svc now' tok db')"
    if "token_revoked db (hash_token svc tok) \<or> token_expired db (hash_token svc tok) now"
    using that
  proof
    assume "token_revoked db (hash_token svc tok)"
    then show ?thesis
      using steps_keep_revoked [OF assms(1)] refresh_revoked_401 by blast
  next
    assume "token_expired db (hash_token svc tok) now"
    then have "token_expired db' (hash_token svc tok) now'"
      using expired_mono [OF steps_keep_expired [OF assms(1)] assms(2)] by blast
    then show ?thesis by (rule refresh_expired_401)
  qed
  show "refresh_access_token svc now' tok db' =
          Inl (HTTPException 401
                 (if decodes_as_refresh svc tok now'
                  then ''Refresh token not found or has been revoked''
                  else ''Invalid refresh token''))"
    if "token_revoked db' (hash_token svc tok)"
    using that by (rule refresh_revoked_detail)
  show "refresh_access_token svc now' tok db' =
          Inl (HTTPException 401
                 (if decodes_as_refresh svc tok now'
                  then ''Refresh token has expired''
                  else ''Invalid refresh token''))"
    if "token_expired db' (hash_token svc tok) now' \<and> \<not> token_revoked db' (hash_token svc tok)"
    using that refresh_expired_detail by blast
  fix credentials u
  assume g: "get_current_user svc now' credentials db' = Inr u"
  let ?db'' = "snd (logout svc tok u db')"
  let ?mine = "owns_row u (hash_token svc tok)"
  have e: "logout_endpoint svc now' credentials tok db' = Inr (''Successfully logged out'', ?db'')"
    using g by (rule logout_endpoint_authenticated)
  have 1: "auth_step svc db' ?db''"
    using e by (rule step_logout)
  have 2: "users ?db'' = users db'"
    by (simp add: logout_table)
  have 3: "length (refresh_tokens ?db'') = length (refresh_tokens db')"
    by (simp add: logout_table revoke_first_length)
  have 4: "\<forall>i<length (refresh_tokens db').
             refresh_tokens ?db'' ! i =
               (if ?mine (refresh_tokens db' ! i) \<and> (\<forall>j<i. \<not> ?mine (refresh_tokens db' ! j))
                then (refresh_tokens db' ! i) \<lparr> revoked := True \<rparr>
                else refresh_tokens db' ! i)"
    by (simp add: logout_table revoke_first_nth)
  have 5: "unique_hashes db \<and> list_ex ?mine (refresh_tokens db') \<longrightarrow>
             token_revoked ?db'' (hash_token svc tok)"
    using steps_keep_unique [OF assms(1)] logout_revokes [of db' u svc tok] by blast
  have 6: "\<not> list_ex ?mine (refresh_tokens db') \<longrightarrow> ?db'' = db'"
    using logout_unowned [of u svc tok db'] by blast
  have 7: "token_revoked db h \<longrightarrow> token_revoked ?db'' h"
    using logout_keeps_revoked [OF steps_keep_revoked [OF assms(1)]] by blast
  show "let db'' = snd (logout svc tok u db');
            old_rows = refresh_tokens db';
            new_rows = refresh_tokens db'';
            mine = owns_row u (hash_token svc tok)
        in logout_endpoint svc now' credentials tok db' =
             Inr (''Successfully logged out'', db'') \<and>
           auth_step svc db' db'' \<and>
           users db'' = users db' \<and>
           length new_rows = length old_rows \<and>
           (\<forall>i<length old_rows.
              new_rows ! i =
                (if mine (old_rows ! i) \<and> (\<forall>j<i. \<not> mine (old_rows ! j))
                 then (old_rows ! i) \<lparr> revoked := True \<rparr>
                 else old_rows ! i)) \<and>
           (unique_hashes db \<and> list_ex mine old_rows \<longrightarrow>
              token_revoked db'' (hash_token svc tok)) \<and>
           (\<not> list_ex mine old_rows \<longrightarrow> db'' = db') \<and>
           (token_revoked db h \<longrightarrow> token_revoked db'' h)"
    unfolding Let_def using e 1 2 3 4 5 6 7 by (intro conjI)
qed

theorem refresh_token_terminal_witness:
  "refresh_access_token example_service 500 ''refresh-1'' (example_auth_db_2 False) =
     Inr \<lparr> access_token = ''access-1'', refresh_token_str = ''refresh-1'',
           token_type = ''bearer'' \<rparr> \<and>
   refresh_access_token example_service 500 ''refresh-1'' (example_auth_db_2 True) =
     Inl (HTTPException 401 ''Refresh token not found or has been revoked'') \<and>
   refresh_access_token example_service 2000 ''refresh-1'' (example_auth_db_2 False) =
     Inl (HTTPException 401 ''Refresh token has expired'') \<and>
   logout_endpoint example_service 500 ''access-1'' ''refresh-1'' (example_auth_db_2 False) =
     Inr (''Successfully logged out'', example_auth_db_2 True) \<and>
   token_revoked (example_auth_db_2 True) ''h:refresh-1'' \<and>
   example_auth_db_2 True \<noteq> example_auth_db_2 False"
proof -
  let ?h = "hash_token example_service ''refresh-1''"
  have d: "decodes_as_refresh example_service ''refresh-1'' n" for n
    by (simp add: decodes_as_refresh_def svc_simps)
  have active: "refresh_access_token example_service 500 ''refresh-1'' (example_auth_db_2 False) =
     Inr \<lparr> access_token = ''access-1'', refresh_token_str = ''refresh-1'',
           token_type = ''bearer'' \<rparr>"
    by (simp add: refresh_access_token_def svc_simps db_2_simps user_simps)
  note R = refresh_token_terminal [OF example_steps [of True], of 0 500 ?h "''refresh-1''"]
  have r: "token_revoked (example_auth_db_2 True) ?h"
    using R example_revoked by simp
  then have revoked: "refresh_access_token example_service 500 ''refresh-1''
      (example_auth_db_2 True) =
     Inl (HTTPException 401 ''Refresh token not found or has been revoked'')"
    using R d by simp
  note E = refresh_token_terminal [OF example_steps [of False], of 1001 2000 ?h "''refresh-1''"]
  have "token_expired (example_auth_db user_active False) ?h 1001"
    by (simp add: token_expired_def svc_simps db_simps)
  then have x: "token_expired (example_auth_db_2 False) ?h 2000"
    using E by simp
  have nr: "\<not> token_revoked (example_auth_db_2 False) ?h"
    by (simp add: token_revoked_def svc_simps db_2_simps)
  have expired: "refresh_access_token example_service 2000 ''refresh-1''
      (example_auth_db_2 False) =
     Inl (HTTPException 401 ''Refresh token has expired'')"
    using E x nr d by simp
  note L = refresh_token_terminal [OF example_steps [of False], of 0 500 ?h "''refresh-1''",
      THEN conjunct2, THEN conjunct2, THEN conjunct2, THEN conjunct2, THEN conjunct2,
      THEN conjunct2, rule_format, OF _ example_get_current_user_2 [of 500 False],
      unfolded Let_def example_logout_2]
  have u: "unique_hashes (example_auth_db user_active False)"
    by (simp add: unique_hashes_def db_simps)
  have o: "list_ex (owns_row (example_user user_active) ?h)
      (refresh_tokens (example_auth_db_2 False))"
    by (simp add: owns_row_def svc_simps db_2_simps user_simps)
  have logout: "logout_endpoint example_service 500 ''access-1'' ''refresh-1''
      (example_auth_db_2 False) = Inr (''Successfully logged out'', example_auth_db_2 True)"
    using L by simp
  have after: "token_revoked (example_auth_db_2 True) ?h"
    using L u o by simp
  have "example_auth_db_2 True \<noteq> example_auth_db_2 False"
    by (simp add: example_auth_db_2_def)
  with active revoked expired logout after show ?thesis
    by (simp add: svc_simps)
qed


section \<open>Theorems: search\<close>

subsection \<open>The origin of a search\<close>

lemma validate_lone:
  assumes "field_constraints sr"
    and "(req_latitude sr \<noteq> None \<and> req_longitude sr = None) \<or>
         (req_longitude sr \<noteq> None \<and> req_latitude sr = None)"
  shows "validate_search_request sr =
     Inl (ValidationError ''Both latitude and longitude must be provided together'')"
  using assms by (auto simp: validate_search_request_def validate_lat_lon_pair_def)

lemma validate_none:
  assumes "field_constraints sr"
    and "(req_latitude sr = None \<and> req_longitude sr = None) \<or>
         (req_latitude sr = Some 0 \<and> req_longitude sr \<noteq> None)"
    and "req_address sr = None \<or> req_address sr = Some []"
    and "req_postal_code sr = None \<or> req_postal_code sr = Some []"
  shows "validate_search_request sr =
     Inl (ValidationError
       ''At least one of address, postal_code, or latitude/longitude must be provided'')"
  using assms
  by (auto simp: validate_search_request_def validate_lat_lon_pair_def truthy_str_def
      truthy_float_def)

lemma resolve_coordinates:
  assumes "req_latitude sr = Some la" "req_longitude sr = Some lo" "la \<noteq> 0" "lo \<noteq> 0"
  shows "resolve_origin nominatim now sr c = (Inr (la, lo, coordinates la lo), c)"
  using assms by (simp add: resolve_origin_def latitude_and_longitude_def truthy_float_def)

lemma resolve_zero:
  assumes "req_latitude sr = Some la" "req_longitude sr = Some lo" "la = 0 \<or> lo = 0"
  shows "resolve_origin nominatim now sr c =
         resolve_origin nominatim now (sr \<lparr> req_latitude := None, req_longitude := None \<rparr>) c"
  using assms by (auto simp: resolve_origin_def latitude_and_longitude_def truthy_float_def)

lemma resolve_without:
  assumes "req_latitude sr = None \<or> req_longitude sr = None"
  shows "resolve_origin nominatim now sr c =
     (case req_postal_code sr of
        Some (p # ps) \<Rightarrow>
          (case geocode_postal_code nominatim now (p # ps) c of
             (None, c') \<Rightarrow>
               (Inl (HTTPException 400 (''Could not geocode postal code: '' @ p # ps)), c')
           | (Some g, c') \<Rightarrow>
               (Inr (geo_latitude g, geo_longitude g,
                     postal_code (p # ps) (geo_latitude g) (geo_longitude g)
                       (formatted_address g)), c'))
      | _ \<Rightarrow>
          (case req_address sr of
             Some (a # as) \<Rightarrow>
               (case geocode_address nominatim now (a # as) c of
                  (None, c') \<Rightarrow>
                    (Inl (HTTPException 400 (''Could not geocode address: '' @ a # as)), c')
                | (Some g, c') \<Rightarrow>
                    (Inr (geo_latitude g, geo_longitude g,
                          address (a # as) (geo_latitude g) (geo_longitude g)
                            (formatted_address g)), c'))
           | _ \<Rightarrow>
               (Inl (HTTPException 400
                  ''Must provide either address, postal_code, or coordinates (latitude & longitude)''),
                c)))"
  using assms
  by (auto simp: resolve_origin_def latitude_and_longitude_def truthy_float_def truthy_str_def
      Let_def split: option.splits list.splits prod.splits)

lemma bbox_math:
  "- 90 \<le> la \<Longrightarrow> la \<le> 90 \<Longrightarrow>
   calculate_bounding_box math_cos_radians la lo r =
     Inr \<lparr> min_lat = la - r / 69, max_lat = la + r / 69,
           min_lon = lo - r / (69 * math_cos_radians la),
           max_lon = lo + r / (69 * math_cos_radians la) \<rparr>"
  using math_cos_radians_pos [of la] by (simp add: calculate_bounding_box_nonzero)

lemma coordinate_request_fields:
  "req_address (coordinate_request la lo r) = None"
  "req_postal_code (coordinate_request la lo r) = None"
  "req_latitude (coordinate_request la lo r) = Some la"
  "req_longitude (coordinate_request la lo r) = Some lo"
  "req_radius_miles (coordinate_request la lo r) = r"
  "req_services (coordinate_request la lo r) = None"
  "req_store_types (coordinate_request la lo r) = None"
  "req_open_now (coordinate_request la lo r) = None"
  by (simp_all add: coordinate_request_def)

lemma zero_fields:
  "req_address zero_latitude_request = None"
  "req_postal_code zero_latitude_request = Some ''10001''"
  "req_latitude zero_latitude_request = Some 0"
  "req_longitude zero_latitude_request = Some 5"
  "req_radius_miles zero_latitude_request = 10"
  "req_services zero_latitude_request = None"
  "req_store_types zero_latitude_request = None"
  "req_open_now zero_latitude_request = None"
  by (simp_all add: zero_latitude_request_def)

lemma geocode_10001:
  "geocode_postal_code example_nominatim 0 ''10001'' empty_cache =
     (Some \<lparr> geo_latitude = 40.7506, geo_longitude = - 73.9972,
             formatted_address = ''New York, NY 10001, USA'' \<rparr>,
      empty_cache \<lparr> geocode_cache :=
        cache_set Map.empty 0 (py_lower ''10001, USA'')
          \<lparr> geo_latitude = 40.7506, geo_longitude = - 73.9972,
            formatted_address = ''New York, NY 10001, USA'' \<rparr> GEOCODING_TTL \<rparr>)"
  by (simp add: geocode_postal_code_def geocode_address_def cache_get_def empty_cache_def
      example_nominatim_def Let_def)

text \<open>
  C1.  The origin of a search is decided by the truth value of the two coordinates, not
  by their presence, and the float 0.0 is false.  So the claim holds for coordinates
  that are both different from zero, and fails for a point on the equator or on the
  prime meridian:
  \<^item> a lone coordinate is refused by the validator (422), and so is a request without
    address, postal code and latitude;
  \<^item> the validator also refuses a request whose latitude is 0.0, whatever the
    longitude, when it has no address and no postal code;
  \<^item> with both coordinates present and different from zero the origin is the pair of
    coordinates, whatever else the request holds;
  \<^item> with both coordinates present and one of them zero, the search goes on exactly as
    if neither had been given: by the postal code if there is one, else by the address,
    else it fails with status 400.
\<close>

theorem search_origin_spec:
  "(field_constraints sr \<and>
    ((req_latitude sr \<noteq> None \<and> req_longitude sr = None) \<or>
     (req_longitude sr \<noteq> None \<and> req_latitude sr = None)) \<longrightarrow>
      validate_search_request sr =
        Inl (ValidationError ''Both latitude and longitude must be provided together'')) \<and>
   (field_constraints sr \<and>
    ((req_latitude sr = None \<and> req_longitude sr = None) \<or>
     (req_latitude sr = Some 0 \<and> req_longitude sr \<noteq> None)) \<and>
    (req_address sr = None \<or> req_address sr = Some []) \<and>
    (req_postal_code sr = None \<or> req_postal_code sr = Some []) \<longrightarrow>
      validate_search_request sr =
        Inl (ValidationError
          ''At least one of address, postal_code, or latitude/longitude must be provided'')) \<and>
   (\<forall>la lo. field_constraints sr \<and> req_latitude sr = Some la \<and> req_longitude sr = Some lo \<and>
        la \<noteq> 0 \<longrightarrow>
      validate_search_request sr = Inr sr) \<and>
   (\<forall>la lo. req_latitude sr = Some la \<and> req_longitude sr = Some lo \<and> la \<noteq> 0 \<and> lo \<noteq> 0 \<longrightarrow>
      resolve_origin nominatim now sr c = (Inr (la, lo, coordinates la lo), c)) \<and>
   (\<forall>la lo. req_latitude sr = Some la \<and> req_longitude sr = Some lo \<and> (la = 0 \<or> lo = 0) \<longrightarrow>
      resolve_origin nominatim now sr c =
        resolve_origin nominatim now (sr \<lparr> req_latitude := None, req_longitude := None \<rparr>) c) \<and>
   (req_latitude sr = None \<or> req_longitude sr = None \<longrightarrow>
      resolve_origin nominatim now sr c =
        (case req_postal_code sr of
           Some (p # ps) \<Rightarrow>
             (case geocode_postal_code nominatim now (p # ps) c of
                (None, c') \<Rightarrow>
                  (Inl (HTTPException 400 (''Could not geocode postal code: '' @ p # ps)), c')
              | (Some g, c') \<Rightarrow>
                  (Inr (geo_latitude g, geo_longitude g,
                        postal_code (p # ps) (geo_latitude g) (geo_longitude g)
                          (formatted_address g)), c'))
         | _ \<Rightarrow>
             (case req_address sr of
                Some (a # as) \<Rightarrow>
                  (case geocode_address nominatim now (a # as) c of
                     (None, c') \<Rightarrow>
                       (Inl (HTTPException 400 (''Could not geocode address: '' @ a # as)), c')
                   | (Some g, c') \<Rightarrow>
                       (Inr (geo_latitude g, geo_longitude g,
                             address (a # as) (geo_latitude g) (geo_longitude g)
                               (formatted_address g)), c'))
              | _ \<Rightarrow>
                  (Inl (HTTPException 400
                     ''Must provide either address, postal_code, or coordinates (latitude & longitude)''),
                   c))))"
proof (intro conjI allI impI)
  show "validate_search_request sr =
      Inl (ValidationError ''Both latitude and longitude must be provided together'')"
    if "field_constraints sr \<and>
        ((req_latitude sr \<noteq> None \<and> req_longitude sr = None) \<or>
         (req_longitude sr \<noteq> None \<and> req_latitude sr = None))"
    using that validate_lone [of sr] by blast
  show "validate_search_request sr =
      Inl (ValidationError
        ''At least one of address, postal_code, or latitude/longitude must be provided'')"
    if "field_constraints sr \<and>
        ((req_latitude sr = None \<and> req_longitude sr = None) \<or>
         (req_latitude sr = Some 0 \<and> req_longitude sr \<noteq> None)) \<and>
        (req_address sr = None \<or> req_address sr = Some []) \<and>
        (req_postal_code sr = None \<or> req_postal_code sr = Some [])"
    using that validate_none [of sr] by blast
  show "validate_search_request sr = Inr sr"
    if "field_constraints sr \<and> req_latitude sr = Some la \<and> req_longitude sr = Some lo \<and> la \<noteq> 0"
    for la lo
    using that
    by (simp add: validate_search_request_def validate_lat_lon_pair_def truthy_float_def)
  show "resolve_origin nominatim now sr c = (Inr (la, lo, coordinates la lo), c)"
    if "req_latitude sr = Some la \<and> req_longitude sr = Some lo \<and> la \<noteq> 0 \<and> lo \<noteq> 0" for la lo
    using that resolve_coordinates [of sr la lo] by blast
  show "resolve_origin nominatim now sr c =
        resolve_origin nominatim now (sr \<lparr> req_latitude := None, req_longitude := None \<rparr>) c"
    if "req_latitude sr = Some la \<and> req_longitude sr = Some lo \<and> (la = 0 \<or> lo = 0)" for la lo
    using that resolve_zero [of sr la lo] by blast
  show "resolve_origin nominatim now sr c =
        (case req_postal_code sr of
           Some (p # ps) \<Rightarrow>
             (case geocode_postal_code nominatim now (p # ps) c of
                (None, c') \<Rightarrow>
                  (Inl (HTTPException 400 (''Could not geocode postal code: '' @ p # ps)), c')
              | (Some g, c') \<Rightarrow>
                  (Inr (geo_latitude g, geo_longitude g,
                        postal_code (p # ps) (geo_latitude g) (geo_longitude g)
                          (formatted_address g)), c'))
         | _ \<Rightarrow>
             (case req_address sr of
                Some (a # as) \<Rightarrow>
                  (case geocode_address nominatim now (a # as) c of
                     (None, c') \<Rightarrow>
                       (Inl (HTTPException 400 (''Could not geocode address: '' @ a # as)), c')
                   | (Some g, c') \<Rightarrow>
                       (Inr (geo_latitude g, geo_longitude g,
                             address (a # as) (geo_latitude g) (geo_longitude g)
                               (formatted_address g)), c'))
              | _ \<Rightarrow>
                  (Inl (HTTPException 400
                     ''Must provide either address, postal_code, or coordinates (latitude & longitude)''),
                   c)))"
    if "req_latitude sr = None \<or> req_longitude sr = None"
    using that by (rule resolve_without)
qed

theorem search_origin_spec_witness:
  "validate_search_request (coordinate_request 0 0 10) =
     Inl (ValidationError
       ''At least one of address, postal_code, or latitude/longitude must be provided'') \<and>
   validate_search_request (coordinate_request 51.5 0 10) = Inr (coordinate_request 51.5 0 10) \<and>
   resolve_origin example_nominatim 0 (coordinate_request 51.5 0 10) empty_cache =
     (Inl (HTTPException 400
        ''Must provide either address, postal_code, or coordinates (latitude & longitude)''),
      empty_cache) \<and>
   validate_search_request zero_latitude_request = Inr zero_latitude_request \<and>
   fst (resolve_origin example_nominatim 0 zero_latitude_request empty_cache) =
     Inr (40.7506, - 73.9972,
          postal_code ''10001'' 40.7506 (- 73.9972) ''New York, NY 10001, USA'') \<and>
   resolve_origin example_nominatim 0 (coordinate_request 40.7128 (- 74.0060) 10) empty_cache =
     (Inr (40.7128, - 74.0060, coordinates 40.7128 (- 74.0060)), empty_cache) \<and>
   validate_search_request
     ((coordinate_request 40.7128 (- 74.0060) 10) \<lparr> req_longitude := None \<rparr>) =
     Inl (ValidationError ''Both latitude and longitude must be provided together'')"
proof -
  note T = search_origin_spec
  have fc: "field_constraints (coordinate_request la lo 10)"
    if "- 90 \<le> la" "la \<le> 90" "- 180 \<le> lo" "lo \<le> 180" for la lo
    using that by (simp add: field_constraints_def in_range_def coordinate_request_fields)
  have 1: "validate_search_request (coordinate_request 0 0 10) =
     Inl (ValidationError
       ''At least one of address, postal_code, or latitude/longitude must be provided'')"
    by (rule T [THEN conjunct2, THEN conjunct1, rule_format])
      (simp add: fc coordinate_request_fields)
  have 2: "validate_search_request (coordinate_request 51.5 0 10) = Inr (coordinate_request 51.5 0 10)"
    by (rule T [THEN conjunct2, THEN conjunct2, THEN conjunct1, rule_format, of _ "51.5" 0])
      (simp add: fc coordinate_request_fields)
  have 3: "resolve_origin example_nominatim 0 (coordinate_request 51.5 0 10) empty_cache =
     (Inl (HTTPException 400
        ''Must provide either address, postal_code, or coordinates (latitude & longitude)''),
      empty_cache)"
    using T [THEN conjunct2, THEN conjunct2, THEN conjunct2, THEN conjunct2, THEN conjunct1,
        rule_format, of "coordinate_request 51.5 0 10" "51.5" 0 example_nominatim 0 empty_cache]
      T [THEN conjunct2, THEN conjunct2, THEN conjunct2, THEN conjunct2, THEN conjunct2,
        rule_format,
        of "(coordinate_request 51.5 0 10) \<lparr> req_latitude := None, req_longitude := None \<rparr>"
          example_nominatim 0 empty_cache]
    by (simp add: coordinate_request_fields)
  have 4: "validate_search_request zero_latitude_request = Inr zero_latitude_request"
    by (simp add: validate_search_request_def validate_lat_lon_pair_def field_constraints_def
        in_range_def zero_fields truthy_float_def truthy_str_def)
  have 5: "fst (resolve_origin example_nominatim 0 zero_latitude_request empty_cache) =
     Inr (40.7506, - 73.9972,
          postal_code ''10001'' 40.7506 (- 73.9972) ''New York, NY 10001, USA'')"
    using T [THEN conjunct2, THEN conjunct2, THEN conjunct2, THEN conjunct2, THEN conjunct1,
        rule_format, of zero_latitude_request 0 5 example_nominatim 0 empty_cache]
      T [THEN conjunct2, THEN conjunct2, THEN conjunct2, THEN conjunct2, THEN conjunct2,
        rule_format,
        of "zero_latitude_request \<lparr> req_latitude := None, req_longitude := None \<rparr>"
          example_nominatim 0 empty_cache]
    by (simp add: zero_fields geocode_10001)
  have 6: "resolve_origin example_nominatim 0 (coordinate_request 40.7128 (- 74.0060) 10)
      empty_cache = (Inr (40.7128, - 74.0060, coordinates 40.7128 (- 74.0060)), empty_cache)"
    by (rule T [THEN conjunct2, THEN conjunct2, THEN conjunct2, THEN conjunct1, rule_format])
      (simp add: coordinate_request_fields)
  have 7: "validate_search_request
     ((coordinate_request 40.7128 (- 74.0060) 10) \<lparr> req_longitude := None \<rparr>) =
     Inl (ValidationError ''Both latitude and longitude must be provided together'')"
    by (rule T [THEN conjunct1, rule_format])
      (simp add: field_constraints_def in_range_def coordinate_request_fields)
  from 1 2 3 4 5 6 7 show ?thesis by (intro conjI)
qed


end
